theory Spec2Isabelle
  imports Main "HOL-Library.AList"
begin

section \<open>The integration-test runner of job-platform\<close>

text \<open>
  A shallow embedding of \<^verbatim>\<open>run_integration_tests.py\<close> (class
  \<^verbatim>\<open>IntegrationTestRunner\<close> and \<^verbatim>\<open>main\<close>). The script is a sequence of
  calls to the outside world (subprocesses, one HTTP request, file-existence tests, the
  clock); everything it decides depends on what those calls answer. The outside world is
  therefore a parameter: an \<open>env\<close> holds, for every kind of call, the answer as a function
  of everything that has happened so far and of the time, and the script threads a
  \<open>state\<close> holding the history of its calls, the clock and the lines it has printed.

  Exceptions are values: a method that can let an exception escape returns
  \<open>exn + 'a\<close> (\<open>Inl\<close> the exception); a method whose handlers catch everything
  returns a plain value.

  What the model takes for granted: every call to the outside returns (a subprocess run
  without a timeout ends by itself); the clock is read in whole milliseconds and never
  runs backwards; \<^verbatim>\<open>time.sleep\<close> lasts at least as long as asked; logging and
  printing take no time and do not fail. The services and the submodules, which the
  script writes down as literals inside its methods, are parameters of the methods
  \<open>wait_for_services_over\<close>, \<open>run_submodule_tests_over\<close> and \<open>run_with\<close>; the
  methods of the script are these at the literals.
\<close>

subsection \<open>The outside world\<close>

text \<open>
  Every \<^verbatim>\<open>subprocess.run\<close> of the script, one constructor per call site:
  \<^item> \<open>DockerVersion\<close>: \<^verbatim>\<open>docker --version\<close> (line 56);
  \<^item> \<open>ComposeVersion\<close>: \<^verbatim>\<open>docker-compose --version\<close> (line 69);
  \<^item> \<open>PythonVersion\<close>: \<^verbatim>\<open>sys.executable --version\<close> (line 82);
  \<^item> \<open>ComposeDownOrphans\<close>: \<^verbatim>\<open>docker-compose -f docker-compose.test.yml down -v --remove-orphans\<close> (line 124);
  \<^item> \<open>ComposeUp\<close>: \<^verbatim>\<open>docker-compose -f docker-compose.test.yml up -d\<close> (line 134);
  \<^item> \<open>PgIsReady\<close>: \<^verbatim>\<open>docker exec job_platform_test_db pg_isready ...\<close> (line 199);
  \<^item> \<open>RunTests command cwd env\<close>: a submodule's test command (line 268);
  \<^item> \<open>ComposeDown\<close>: \<^verbatim>\<open>docker-compose -f docker-compose.test.yml down -v\<close> (line 311);
  \<^item> \<open>ComposeLogs\<close>: \<^verbatim>\<open>docker-compose -f docker-compose.test.yml logs\<close> (line 328).
\<close>

datatype call =
    DockerVersion
  | ComposeVersion
  | PythonVersion
  | ComposeDownOrphans
  | ComposeUp
  | PgIsReady
  | RunTests "string list" string "(string \<times> string) list"
  | ComposeDown
  | ComposeLogs

fun argv :: "string \<Rightarrow> call \<Rightarrow> string list" where
  "argv exe DockerVersion = [''docker'', ''--version'']"
| "argv exe ComposeVersion = [''docker-compose'', ''--version'']"
| "argv exe PythonVersion = [exe, ''--version'']"
| "argv exe ComposeDownOrphans =
     [''docker-compose'', ''-f'', ''docker-compose.test.yml'', ''down'', ''-v'', ''--remove-orphans'']"
| "argv exe ComposeUp = [''docker-compose'', ''-f'', ''docker-compose.test.yml'', ''up'', ''-d'']"
| "argv exe PgIsReady =
     [''docker'', ''exec'', ''job_platform_test_db'', ''pg_isready'', ''-U'', ''test_user'',
      ''-d'', ''job_platform_test'']"
| "argv exe (RunTests cmd cwd ev) = cmd"
| "argv exe ComposeDown = [''docker-compose'', ''-f'', ''docker-compose.test.yml'', ''down'', ''-v'']"
| "argv exe ComposeLogs = [''docker-compose'', ''-f'', ''docker-compose.test.yml'', ''logs'']"

text \<open>
  What a child process does: it cannot be launched (\<^verbatim>\<open>FileNotFoundError\<close>, or another
  exception such as \<^verbatim>\<open>PermissionError\<close>), or it runs and writes to stdout and stderr,
  finishing with a return code. \<open>took\<close> is the time in milliseconds the call needs; a
  call made with a timeout shorter than that is cut off (the child is killed and
  \<^verbatim>\<open>TimeoutExpired\<close> raised), and the texts are then what had been written so far.
\<close>

datatype proc_result =
    Exited int string string
  | NotFound
  | LaunchFailed string

record proc_reply =
  result :: proc_result
  took :: nat

datatype http_result =
    Status int
  | RequestFailed string

record http_reply =
  response :: http_result
  http_took :: nat

text \<open>
  The history of calls with their answers. \<open>Slept n extra\<close> is \<^verbatim>\<open>time.sleep(n)\<close>, which
  lasted \<open>extra\<close> milliseconds longer than asked.
\<close>

datatype event =
    Ran call proc_reply
  | Got string http_reply
  | Exists string bool
  | Slept nat nat

text \<open>
  The exceptions of the script. \<open>CalledProcessError\<close> carries return code, stdout and
  stderr; \<open>TimeoutExpired\<close> the output captured until the child was killed;
  \<open>UnicodeDecodeError\<close> is raised by a call in text mode whose captured output is not
  text in the encoding of the locale.
\<close>

datatype exn =
    CalledProcessError int string string
  | TimeoutExpired string string
  | FileNotFoundError
  | UnicodeDecodeError
  | OtherException string

text \<open>
  The environment answers each call from the history so far and the time on the clock.
  What a child process writes are bytes; \<open>decode\<close> is the decoding of text mode (the
  encoding of the locale and the translation of line ends), \<open>None\<close> where Python raises
  \<^verbatim>\<open>UnicodeDecodeError\<close>. A text is held as its UTF-8 encoding. \<open>exn_text\<close> is
  Python's \<^verbatim>\<open>str(e)\<close>, \<open>os_environ\<close> the inherited process environment. These last
  three belong to the runtime, not to the script.
\<close>

record env =
  proc :: "event list \<Rightarrow> nat \<Rightarrow> call \<Rightarrow> proc_reply"
  http_get :: "event list \<Rightarrow> nat \<Rightarrow> string \<Rightarrow> http_reply"
  path_exists :: "event list \<Rightarrow> nat \<Rightarrow> string \<Rightarrow> bool"
  sleep_overrun :: "event list \<Rightarrow> nat \<Rightarrow> nat"
  decode :: "string \<Rightarrow> string option"
  exn_text :: "exn \<Rightarrow> string"
  os_environ :: "(string \<times> string) list"

subsection \<open>Output\<close>

datatype level = INFO | ERROR | WARNING | SUCCESS

text \<open>
  The texts the script logs and prints are Russian sentences with values interpolated;
  each is a constructor carrying the interpolated values, in the order of the source.
\<close>

datatype check_msg =
    CheckingDependencies
  | DockerOk string
  | DockerMissing
  | ComposeOk string
  | ComposeMissing
  | PythonOk string
  | PythonMissing
  | CheckingEnvFiles
  | EnvFilesMissing "string list"
  | EnvFilesHint
  | EnvFilesFound

datatype env_msg =
    StartingEnvironment
  | CleaningPrevious
  | StartingServices
  | ComposeError exn
  | StderrText string
  | SkippingCleanup
  | CleaningEnvironment
  | EnvironmentCleaned
  | CleanupError exn

datatype probe_msg =
    WaitingForServices int
  | WaitingFor string
  | ServiceReady string nat
  | AttemptFailed nat string exn
  | ServiceNotReady string int
  | AllServicesReady
  | ShowingContainerLogs
  | ContainerLogs
  | RawText string
  | ErrorsHeader
  | LogsUnavailable exn

datatype test_msg =
    RunningTests
  | RunningTestsFor string
  | TestsPassed string
  | TestsFailed string
  | LastLines
  | OutputLine string
  | TestsTimeout string
  | TestsLaunchError string exn

datatype report_msg =
    Banner
  | Rule
  | SummaryHeader
  | ModuleStatus string bool
  | ModuleError string
  | TotalModules nat
  | PassedCount nat
  | FailedCount nat
  | AllPassed
  | SomeFailed nat
  | FinishedOk
  | FinishedWithErrors

datatype msg =
    Check check_msg
  | Environment env_msg
  | Probe probe_msg
  | Test test_msg
  | Report report_msg

datatype line = Logged level msg | Printed msg

subsection \<open>The runner and its state\<close>

record runner =
  verbose :: bool
  no_cleanup :: bool

text \<open>The clock \<open>now\<close> is in milliseconds and never runs backwards.\<close>

record state =
  history :: "event list"
  now :: nat
  out :: "line list"

definition print :: "msg \<Rightarrow> state \<Rightarrow> state" where
  "print m s = s\<lparr>out := out s @ [Printed m]\<rparr>"

text \<open>\<^verbatim>\<open>log\<close> (line 44); the timestamp prefix of the printed line is left out.\<close>

definition log :: "runner \<Rightarrow> msg \<Rightarrow> level \<Rightarrow> state \<Rightarrow> state" where
  "log r m lvl s =
     (if verbose r \<or> lvl \<in> set [ERROR, WARNING, SUCCESS]
      then s\<lparr>out := out s @ [Logged lvl m]\<rparr> else s)"

record completed =
  returncode :: int
  stdout :: string
  stderr :: string

text \<open>
  \<^verbatim>\<open>subprocess.run(argv, check=..., capture_output=..., text=..., timeout=...)\<close>: the
  answer of the world (\<open>reply\<close>), what the call returns or raises (\<open>outcome\<close>), the time
  it takes (\<open>spent\<close>, the timeout in seconds), and the call itself. The timeout is looked
  at first; then the captured output is decoded, in text mode; then, with \<^verbatim>\<open>check\<close>,
  the return code. Without \<^verbatim>\<open>capture_output\<close> nothing is read or decoded and the
  texts are \<^verbatim>\<open>None\<close> in Python; they are the empty string here, which every use in
  the script (a truth test) treats alike.
\<close>

definition reply :: "env \<Rightarrow> state \<Rightarrow> call \<Rightarrow> proc_reply" where
  "reply E s c = proc E (history s) (now s) c"

definition captured :: "env \<Rightarrow> bool \<Rightarrow> bool \<Rightarrow> string \<Rightarrow> string option" where
  "captured E capture text bytes =
     (if \<not> capture then Some [] else if text then decode E bytes else Some bytes)"

definition outcome ::
  "env \<Rightarrow> bool \<Rightarrow> bool \<Rightarrow> bool \<Rightarrow> nat option \<Rightarrow> proc_reply \<Rightarrow> exn + completed" where
  "outcome E check capture text timeout rep =
     (let cut = (case timeout of None \<Rightarrow> False | Some t \<Rightarrow> t * 1000 < took rep)
      in case result rep of
           NotFound \<Rightarrow> Inl FileNotFoundError
         | LaunchFailed m \<Rightarrow> Inl (OtherException m)
         | Exited rc so se \<Rightarrow>
             if cut then Inl (TimeoutExpired (if capture then so else []) (if capture then se else []))
             else (case (captured E capture text so, captured E capture text se) of
                     (Some t1, Some t2) \<Rightarrow>
                       if check \<and> rc \<noteq> 0 then Inl (CalledProcessError rc t1 t2)
                       else Inr \<lparr>returncode = rc, stdout = t1, stderr = t2\<rparr>
                   | _ \<Rightarrow> Inl UnicodeDecodeError))"

definition spent :: "nat option \<Rightarrow> proc_reply \<Rightarrow> nat" where
  "spent timeout rep = (case timeout of None \<Rightarrow> took rep | Some t \<Rightarrow> min (took rep) (t * 1000))"

definition after :: "env \<Rightarrow> call \<Rightarrow> nat option \<Rightarrow> state \<Rightarrow> state" where
  "after E c timeout s =
     s\<lparr>history := history s @ [Ran c (reply E s c)],
       now := now s + spent timeout (reply E s c)\<rparr>"

definition subprocess_run ::
  "env \<Rightarrow> call \<Rightarrow> bool \<Rightarrow> bool \<Rightarrow> bool \<Rightarrow> nat option \<Rightarrow> state \<Rightarrow> (exn + completed) \<times> state" where
  "subprocess_run E c check capture text timeout s =
     (outcome E check capture text timeout (reply E s c), after E c timeout s)"

text \<open>\<^verbatim>\<open>time.sleep(n)\<close>: at least \<open>n\<close> seconds pass.\<close>

definition sleep :: "env \<Rightarrow> nat \<Rightarrow> state \<Rightarrow> state" where
  "sleep E n s =
     (let extra = sleep_overrun E (history s) (now s)
      in s\<lparr>history := history s @ [Slept n extra], now := now s + n * 1000 + extra\<rparr>)"

text \<open>
  \<^verbatim>\<open>str.strip()\<close>. The white space of Python, each character in UTF-8: the ASCII
  characters 9 to 13, 28 to 32, and U+0085, U+00A0, U+1680, U+2000 to U+200A, U+2028,
  U+2029, U+202F, U+205F and U+3000.
\<close>

definition spaces :: "string list" where
  "spaces =
     map (\<lambda>c. [char_of c]) [9, 10, 11, 12, 13, 28, 29, 30, 31, 32 :: nat] @
     [[CHR 0xC2, CHR 0x85], [CHR 0xC2, CHR 0xA0], [CHR 0xE1, CHR 0x9A, CHR 0x80]] @
     map (\<lambda>c. [CHR 0xE2, CHR 0x80, char_of c]) [128, 129, 130, 131, 132, 133, 134, 135, 136, 137, 138 :: nat] @
     [[CHR 0xE2, CHR 0x80, CHR 0xA8], [CHR 0xE2, CHR 0x80, CHR 0xA9], [CHR 0xE2, CHR 0x80, CHR 0xAF],
      [CHR 0xE2, CHR 0x81, CHR 0x9F], [CHR 0xE3, CHR 0x80, CHR 0x80]]"

text \<open>The length of the white-space character a text begins with, or 0.\<close>

definition space_at_front :: "string list \<Rightarrow> string \<Rightarrow> nat" where
  "space_at_front ws t =
     (case find (\<lambda>w. w \<noteq> [] \<and> take (length w) t = w) ws of None \<Rightarrow> 0 | Some w \<Rightarrow> length w)"

function lstrip_with :: "string list \<Rightarrow> string \<Rightarrow> string" where
  "lstrip_with ws t =
     (if space_at_front ws t = 0 then t else lstrip_with ws (drop (space_at_front ws t) t))"
  by pat_completeness auto
termination
proof (relation "measure (\<lambda>(ws, t). length t)", goal_cases)
  case 1
  show ?case by simp
next
  case (2 ws t)
  then obtain w where "find (\<lambda>w. w \<noteq> [] \<and> take (length w) t = w) ws = Some w"
    by (auto simp: space_at_front_def split: option.splits)
  then have "w \<noteq> []" and "take (length w) t = w"
    by (auto simp: find_Some_iff)
  then have "t \<noteq> []"
    by auto
  with 2 show ?case by simp
qed

definition strip :: "string \<Rightarrow> string" where
  "strip t = rev (lstrip_with (map rev spaces) (rev (lstrip_with spaces t)))"

subsection \<open>Checks before the environment is touched\<close>

text \<open>\<^verbatim>\<open>check_dependencies\<close> (line 50).\<close>

definition check_dependencies :: "env \<Rightarrow> runner \<Rightarrow> state \<Rightarrow> (exn + bool) \<times> state" where
  "check_dependencies E r s =
     (let s0 = log r (Check CheckingDependencies) INFO s
      in case subprocess_run E DockerVersion True True True None s0 of
           (Inl (CalledProcessError rc so se), s1) \<Rightarrow> (Inr False, log r (Check DockerMissing) ERROR s1)
         | (Inl FileNotFoundError, s1) \<Rightarrow> (Inr False, log r (Check DockerMissing) ERROR s1)
         | (Inl e, s1) \<Rightarrow> (Inl e, s1)
         | (Inr p1, s1) \<Rightarrow>
            (let s2 = log r (Check (DockerOk (strip (stdout p1)))) INFO s1
             in case subprocess_run E ComposeVersion True True True None s2 of
                  (Inl (CalledProcessError rc so se), s3) \<Rightarrow>
                     (Inr False, log r (Check ComposeMissing) ERROR s3)
                | (Inl FileNotFoundError, s3) \<Rightarrow> (Inr False, log r (Check ComposeMissing) ERROR s3)
                | (Inl e, s3) \<Rightarrow> (Inl e, s3)
                | (Inr p2, s3) \<Rightarrow>
                   (let s4 = log r (Check (ComposeOk (strip (stdout p2)))) INFO s3
                    in case subprocess_run E PythonVersion True True True None s4 of
                         (Inl (CalledProcessError rc so se), s5) \<Rightarrow>
                            (Inr False, log r (Check PythonMissing) ERROR s5)
                       | (Inl e, s5) \<Rightarrow> (Inl e, s5)
                       | (Inr p3, s5) \<Rightarrow>
                            (Inr True, log r (Check (PythonOk (strip (stdout p3)))) INFO s5))))"

text \<open>\<^verbatim>\<open>check_env_files\<close> (line 95): the loop collecting the missing files.\<close>

fun missing_files_loop :: "env \<Rightarrow> string list \<Rightarrow> string list \<Rightarrow> state \<Rightarrow> string list \<times> state" where
  "missing_files_loop E [] missing s = (missing, s)"
| "missing_files_loop E (f # fs) missing s =
     (let b = path_exists E (history s) (now s) f;
          s' = s\<lparr>history := history s @ [Exists f b]\<rparr>
      in missing_files_loop E fs (if \<not> b then missing @ [f] else missing) s')"

definition required_files :: "string list" where
  "required_files = [''.env.dev'', ''.env.hh.dev'']"

definition check_env_files :: "env \<Rightarrow> runner \<Rightarrow> state \<Rightarrow> bool \<times> state" where
  "check_env_files E r s =
     (let s0 = log r (Check CheckingEnvFiles) INFO s;
          (missing, s1) = missing_files_loop E required_files [] s0
      in if missing \<noteq> []
         then (False, log r (Check EnvFilesHint) ERROR (log r (Check (EnvFilesMissing missing)) ERROR s1))
         else (True, log r (Check EnvFilesFound) INFO s1))"

subsection \<open>Starting the environment\<close>

text \<open>
  The handler of \<^verbatim>\<open>start_test_environment\<close> (line 142): only
  \<^verbatim>\<open>CalledProcessError\<close> is caught.
\<close>

definition start_failed :: "runner \<Rightarrow> exn \<Rightarrow> state \<Rightarrow> (exn + bool) \<times> state" where
  "start_failed r e s =
     (case e of
        CalledProcessError rc so se \<Rightarrow>
          (let s1 = log r (Environment (ComposeError e)) ERROR s
           in (Inr False, if \<not> verbose r \<and> se \<noteq> [] then log r (Environment (StderrText se)) ERROR s1 else s1))
      | _ \<Rightarrow> (Inl e, s))"

text \<open>\<^verbatim>\<open>start_test_environment\<close> (line 117).\<close>

definition start_test_environment :: "env \<Rightarrow> runner \<Rightarrow> state \<Rightarrow> (exn + bool) \<times> state" where
  "start_test_environment E r s =
     (let s0 = log r (Environment CleaningPrevious) INFO (log r (Environment StartingEnvironment) INFO s)
      in case subprocess_run E ComposeDownOrphans True (\<not> verbose r) True None s0 of
           (Inl e, s1) \<Rightarrow> start_failed r e s1
         | (Inr p1, s1) \<Rightarrow>
            (case subprocess_run E ComposeUp True (\<not> verbose r) True None
                    (log r (Environment StartingServices) INFO s1) of
               (Inl e, s2) \<Rightarrow> start_failed r e s2
             | (Inr p2, s2) \<Rightarrow> (Inr True, s2)))"

subsection \<open>Waiting for the services\<close>

text \<open>
  A service of the \<^verbatim>\<open>services\<close> dictionary (line 154): its key, and the values
  \<^verbatim>\<open>url\<close>, \<^verbatim>\<open>name\<close> and \<^verbatim>\<open>check_function\<close>, the last one of the two
  methods \<^verbatim>\<open>_check_database\<close> and \<^verbatim>\<open>_check_api\<close>.
\<close>

datatype check = CheckDatabase | CheckApi

record service =
  key :: string
  url :: string
  svc_name :: string
  check_function :: check

text \<open>\<^verbatim>\<open>_check_database\<close> (line 195): the url is not used.\<close>

definition check_database :: "env \<Rightarrow> string \<Rightarrow> state \<Rightarrow> (exn + bool) \<times> state" where
  "check_database E u s =
     (case subprocess_run E PgIsReady False True False (Some 5) s of
        (Inr p, s1) \<Rightarrow> (Inr (returncode p = 0), s1)
      | (Inl (TimeoutExpired so se), s1) \<Rightarrow> (Inr False, s1)
      | (Inl (CalledProcessError rc so se), s1) \<Rightarrow> (Inr False, s1)
      | (Inl e, s1) \<Rightarrow> (Inl e, s1))"

text \<open>\<^verbatim>\<open>_check_api\<close> (line 207): the bare \<^verbatim>\<open>except\<close> catches everything.\<close>

definition check_api :: "env \<Rightarrow> string \<Rightarrow> state \<Rightarrow> (exn + bool) \<times> state" where
  "check_api E u s =
     (let rep = http_get E (history s) (now s) u;
          s1 = s\<lparr>history := history s @ [Got u rep], now := now s + http_took rep\<rparr>
      in case response rep of
           Status code \<Rightarrow> (Inr (code = 200), s1)
         | RequestFailed m \<Rightarrow> (Inr False, s1))"

fun call_check :: "env \<Rightarrow> check \<Rightarrow> string \<Rightarrow> state \<Rightarrow> (exn + bool) \<times> state" where
  "call_check E CheckDatabase u s = check_database E u s"
| "call_check E CheckApi u s = check_api E u s"

text \<open>\<^verbatim>\<open>_show_container_logs\<close> (line 324).\<close>

definition show_container_logs :: "env \<Rightarrow> runner \<Rightarrow> state \<Rightarrow> state" where
  "show_container_logs E r s =
     (case subprocess_run E ComposeLogs False True True None
             (log r (Probe ShowingContainerLogs) WARNING s) of
        (Inr p, s1) \<Rightarrow>
          (let s2 = log r (Probe (RawText (stdout p))) WARNING
                      (log r (Probe ContainerLogs) WARNING s1)
           in if stderr p \<noteq> []
              then log r (Probe (RawText (stderr p))) ERROR (log r (Probe ErrorsHeader) ERROR s2)
              else s2)
      | (Inl e, s1) \<Rightarrow> log r (Probe (LogsUnavailable e)) ERROR s1)"

text \<open>
  One pass through the body of the \<^verbatim>\<open>while\<close> loop (lines 175 to 185), \<open>attempts\<close>
  already incremented: the service answers ready, or the script sleeps five seconds; an
  exception of the check is logged in verbose mode only.
\<close>

definition wait_attempt :: "env \<Rightarrow> runner \<Rightarrow> service \<Rightarrow> nat \<Rightarrow> state \<Rightarrow> bool \<times> state" where
  "wait_attempt E r sv attempts s =
     (case call_check E (check_function sv) (url sv) s of
        (Inr True, s1) \<Rightarrow> (True, log r (Probe (ServiceReady (svc_name sv) attempts)) INFO s1)
      | (Inr False, s1) \<Rightarrow> (False, sleep E 5 s1)
      | (Inl e, s1) \<Rightarrow>
          (False, sleep E 5
             (if verbose r then log r (Probe (AttemptFailed attempts (svc_name sv) e)) INFO s1
              else s1)))"

text \<open>
  The \<^verbatim>\<open>while\<close> loop (line 174) for one service: \<open>start_time\<close> in milliseconds,
  \<open>timeout\<close> in seconds. It returns \<^verbatim>\<open>service_ready\<close>.
\<close>

function wait_loop ::
  "env \<Rightarrow> runner \<Rightarrow> service \<Rightarrow> nat \<Rightarrow> int \<Rightarrow> nat \<Rightarrow> state \<Rightarrow> bool \<times> state" where
  "wait_loop E r sv start_time timeout attempts s =
     (if int (now s) - int start_time < timeout * 1000
      then (case wait_attempt E r sv (attempts + 1) s of
              (True, s') \<Rightarrow> (True, s')
            | (False, s') \<Rightarrow> wait_loop E r sv start_time timeout (attempts + 1) s')
      else (False, s))"
  by pat_completeness auto
termination
proof (relation "measure (\<lambda>(E, r, sv, start_time, timeout, attempts, s).
                   nat (timeout * 1000 - (int (now s) - int start_time)))", goal_cases)
  case 1
  show ?case by simp
next
  case (2 E r sv start_time timeout attempts s x1 x2)
  have run: "now s \<le> now (snd (subprocess_run E PgIsReady False True False (Some 5) s))"
    by (simp add: subprocess_run_def after_def)
  have "now s \<le> now (snd (call_check E (check_function sv) (url sv) s))"
  proof (cases "check_function sv")
    case CheckDatabase
    with run show ?thesis
      by (auto simp: check_database_def split: prod.split sum.split exn.split)
  next
    case CheckApi
    then show ?thesis
      by (simp add: check_api_def Let_def split: http_result.split)
  qed
  with 2 have "now s + 5000 \<le> now x2"
    by (auto simp: wait_attempt_def sleep_def log_def Let_def
             split: prod.splits sum.splits bool.splits if_splits)
  with 2 show ?case by simp
qed

text \<open>The \<^verbatim>\<open>for\<close> loop over the services (line 169).\<close>

fun probe_services ::
  "env \<Rightarrow> runner \<Rightarrow> nat \<Rightarrow> int \<Rightarrow> service list \<Rightarrow> state \<Rightarrow> bool \<times> state" where
  "probe_services E r start_time timeout [] s = (True, s)"
| "probe_services E r start_time timeout (sv # svs) s =
     (case wait_loop E r sv start_time timeout 0 (log r (Probe (WaitingFor (svc_name sv))) INFO s) of
        (False, s1) \<Rightarrow>
          (False, show_container_logs E r
                    (log r (Probe (ServiceNotReady (svc_name sv) timeout)) ERROR s1))
      | (True, s1) \<Rightarrow> probe_services E r start_time timeout svs s1)"

text \<open>
  \<^verbatim>\<open>wait_for_services\<close> (line 150), with the services as a parameter, and with the
  dictionary of the script.
\<close>

definition wait_for_services_over ::
  "env \<Rightarrow> runner \<Rightarrow> service list \<Rightarrow> int \<Rightarrow> state \<Rightarrow> bool \<times> state" where
  "wait_for_services_over E r svs timeout s =
     (let s0 = log r (Probe (WaitingForServices timeout)) INFO s
      in case probe_services E r (now s0) timeout svs s0 of
           (False, s1) \<Rightarrow> (False, s1)
         | (True, s1) \<Rightarrow> (True, log r (Probe AllServicesReady) INFO s1))"

definition services :: "service list" where
  "services =
     [\<lparr>key = ''test_db'', url = ''http://localhost:5433'',
       svc_name = [CHR 0xD0, CHR 0x91, CHR 0xD0, CHR 0xB0, CHR 0xD0, CHR 0xB7, CHR 0xD0, CHR 0xB0,
                   CHR 0x20, CHR 0xD0, CHR 0xB4, CHR 0xD0, CHR 0xB0, CHR 0xD0, CHR 0xBD, CHR 0xD0,
                   CHR 0xBD, CHR 0xD1, CHR 0x8B, CHR 0xD1, CHR 0x85],
       check_function = CheckDatabase\<rparr>,
      \<lparr>key = ''test_api'', url = ''http://localhost:8001/api/v1/docs'',
       svc_name = ''API'', check_function = CheckApi\<rparr>]"

definition wait_for_services :: "env \<Rightarrow> runner \<Rightarrow> int \<Rightarrow> state \<Rightarrow> bool \<times> state" where
  "wait_for_services E r timeout s = wait_for_services_over E r services timeout s"

subsection \<open>Running the tests of the submodules\<close>

text \<open>
  An entry of the \<^verbatim>\<open>submodules\<close> list (line 219) with its keys \<^verbatim>\<open>name\<close>,
  \<^verbatim>\<open>path\<close>, \<^verbatim>\<open>test_command\<close> and \<^verbatim>\<open>env\<close>, and the dictionary
  \<^verbatim>\<open>_run_single_test\<close> returns (line 255).
\<close>

record submodule =
  sm_name :: string
  path :: string
  test_command :: "string list"
  sm_env :: "(string \<times> string) list"

record test_result =
  name :: string
  success :: bool
  "output" :: string
  error :: string

text \<open>The text stored on \<^verbatim>\<open>TimeoutExpired\<close> (line 294), in UTF-8.\<close>

definition timeout_message :: string where
  "timeout_message =
     [CHR 0xD0, CHR 0xA2, CHR 0xD0, CHR 0xB5, CHR 0xD1, CHR 0x81, CHR 0xD1, CHR 0x82,
     CHR 0xD1, CHR 0x8B, CHR 0x20, CHR 0xD0, CHR 0xBF, CHR 0xD1, CHR 0x80, CHR 0xD0,
     CHR 0xB5, CHR 0xD0, CHR 0xB2, CHR 0xD1, CHR 0x8B, CHR 0xD1, CHR 0x81, CHR 0xD0,
     CHR 0xB8, CHR 0xD0, CHR 0xBB, CHR 0xD0, CHR 0xB8, CHR 0x20, CHR 0xD0, CHR 0xB2,
     CHR 0xD1, CHR 0x80, CHR 0xD0, CHR 0xB5, CHR 0xD0, CHR 0xBC, CHR 0xD1, CHR 0x8F,
     CHR 0x20, CHR 0xD0, CHR 0xBE, CHR 0xD0, CHR 0xB6, CHR 0xD0, CHR 0xB8, CHR 0xD0,
     CHR 0xB4, CHR 0xD0, CHR 0xB0, CHR 0xD0, CHR 0xBD, CHR 0xD0, CHR 0xB8, CHR 0xD1,
     CHR 0x8F, CHR 0x20, CHR 0x28, CHR 0x31, CHR 0x30, CHR 0x20, CHR 0xD0, CHR 0xBC,
     CHR 0xD0, CHR 0xB8, CHR 0xD0, CHR 0xBD, CHR 0x29]"

text \<open>\<^verbatim>\<open>str.split('\n')\<close> and the slice \<^verbatim>\<open>[-20:]\<close>.\<close>

fun split_nl :: "string \<Rightarrow> string list" where
  "split_nl [] = [[]]"
| "split_nl (c # cs) =
     (if c = CHR 0x0A then [] # split_nl cs
      else (case split_nl cs of [] \<Rightarrow> [[c]] | l # ls \<Rightarrow> (c # l) # ls))"

definition last20 :: "'a list \<Rightarrow> 'a list" where
  "last20 xs = drop (length xs - 20) xs"

fun log_lines :: "runner \<Rightarrow> string list \<Rightarrow> state \<Rightarrow> state" where
  "log_lines r [] s = s"
| "log_lines r (l # ls) s =
     log_lines r ls (if strip l \<noteq> [] then log r (Test (OutputLine l)) ERROR s else s)"

text \<open>
  \<^verbatim>\<open>env = os.environ.copy(); env.update(submodule["env"])\<close>, and the call made for
  a submodule.
\<close>

definition test_env :: "env \<Rightarrow> submodule \<Rightarrow> (string \<times> string) list" where
  "test_env E m = fold (\<lambda>(k, v). AList.update k v) (sm_env m) (os_environ E)"

definition test_call :: "env \<Rightarrow> submodule \<Rightarrow> call" where
  "test_call E m = RunTests (test_command m) (path m) (test_env E m)"

text \<open>\<^verbatim>\<open>_run_single_test\<close> (line 253); ten minutes for a module.\<close>

definition run_single_test :: "env \<Rightarrow> runner \<Rightarrow> submodule \<Rightarrow> state \<Rightarrow> test_result \<times> state" where
  "run_single_test E r m s =
     (let res = \<lparr>name = sm_name m, success = False, output = [], error = []\<rparr>
      in case subprocess_run E (test_call E m) False True True (Some 600) s of
           (Inr p, s1) \<Rightarrow>
             (let res1 = res\<lparr>success := (returncode p = 0), output := stdout p,
                             error := stderr p\<rparr>
              in if success res1
                 then (res1, log r (Test (TestsPassed (sm_name m))) SUCCESS s1)
                 else (let s2 = log r (Test (TestsFailed (sm_name m))) ERROR s1
                       in if \<not> verbose r
                          then (res1, log_lines r (last20 (split_nl (stdout p @ stderr p)))
                                        (log r (Test LastLines) ERROR s2))
                          else (res1, s2)))
         | (Inl (TimeoutExpired so se), s1) \<Rightarrow>
             (res\<lparr>error := timeout_message\<rparr>, log r (Test (TestsTimeout (sm_name m))) ERROR s1)
         | (Inl e, s1) \<Rightarrow>
             (res\<lparr>error := exn_text E e\<rparr>,
              log r (Test (TestsLaunchError (sm_name m) e)) ERROR s1))"

text \<open>The \<^verbatim>\<open>for\<close> loop of \<^verbatim>\<open>run_submodule_tests\<close> (line 246).\<close>

fun tests_loop ::
  "env \<Rightarrow> runner \<Rightarrow> submodule list \<Rightarrow> test_result list \<Rightarrow> state \<Rightarrow> test_result list \<times> state" where
  "tests_loop E r [] results s = (results, s)"
| "tests_loop E r (m # ms) results s =
     (let (res, s1) = run_single_test E r m (log r (Test (RunningTestsFor (sm_name m))) INFO s)
      in tests_loop E r ms (results @ [res]) s1)"

text \<open>
  \<^verbatim>\<open>run_submodule_tests\<close> (line 215), with the submodules as a parameter, and with the
  list of the script.
\<close>

definition run_submodule_tests_over ::
  "env \<Rightarrow> runner \<Rightarrow> submodule list \<Rightarrow> state \<Rightarrow> test_result list \<times> state" where
  "run_submodule_tests_over E r ms s = tests_loop E r ms [] (log r (Test RunningTests) INFO s)"

definition submodules :: "submodule list" where
  "submodules =
     [\<lparr>sm_name = ''job-bot'', path = ''job-bot'',
       test_command = [''python'', ''-m'', ''pytest'', ''tests/integration/'', ''-v'', ''--tb=short''],
       sm_env = [(''API_BASE_URL'', ''http://localhost:8001'')]\<rparr>]"

definition run_submodule_tests :: "env \<Rightarrow> runner \<Rightarrow> state \<Rightarrow> test_result list \<times> state" where
  "run_submodule_tests E r s = run_submodule_tests_over E r submodules s"

subsection \<open>Stopping the environment\<close>

text \<open>\<^verbatim>\<open>cleanup_environment\<close> (line 302): only \<^verbatim>\<open>CalledProcessError\<close> is caught.\<close>

definition cleanup_environment :: "env \<Rightarrow> runner \<Rightarrow> state \<Rightarrow> (exn + bool) \<times> state" where
  "cleanup_environment E r s =
     (if no_cleanup r then (Inr True, log r (Environment SkippingCleanup) INFO s)
      else case subprocess_run E ComposeDown True (\<not> verbose r) True None
                  (log r (Environment CleaningEnvironment) INFO s) of
             (Inr p, s1) \<Rightarrow> (Inr True, log r (Environment EnvironmentCleaned) INFO s1)
           | (Inl (CalledProcessError rc so se), s1) \<Rightarrow>
               (Inr False,
                log r (Environment (CleanupError (CalledProcessError rc so se))) ERROR s1)
           | (Inl e, s1) \<Rightarrow> (Inl e, s1))"

subsection \<open>The report\<close>

text \<open>The \<^verbatim>\<open>for\<close> loop of \<^verbatim>\<open>print_summary\<close> (line 351) with its two counters.\<close>

fun summary_loop :: "test_result list \<Rightarrow> nat \<Rightarrow> nat \<Rightarrow> state \<Rightarrow> nat \<times> nat \<times> state" where
  "summary_loop [] total_passed total_failed s = (total_passed, total_failed, s)"
| "summary_loop (x # xs) total_passed total_failed s =
     (let s1 = print (Report (ModuleStatus (name x) (success x))) s;
          s2 = (if \<not> success x \<and> error x \<noteq> [] then print (Report (ModuleError (error x))) s1
                else s1)
      in if success x then summary_loop xs (total_passed + 1) total_failed s2
         else summary_loop xs total_passed (total_failed + 1) s2)"

text \<open>\<^verbatim>\<open>print_summary\<close> (line 342).\<close>

definition print_summary :: "test_result list \<Rightarrow> state \<Rightarrow> bool \<times> state" where
  "print_summary results s =
     (let s0 = print (Report Rule) (print (Report SummaryHeader) (print (Report Rule) s));
          (total_passed, total_failed, s1) = summary_loop results 0 0 s0;
          s2 = print (Report (FailedCount total_failed))
                 (print (Report (PassedCount total_passed))
                    (print (Report (TotalModules (total_passed + total_failed)))
                       (print (Report Rule) s1)))
      in if total_failed = 0 then (True, print (Report AllPassed) s2)
         else (False, print (Report (SomeFailed total_failed)) s2))"

subsection \<open>The run\<close>

text \<open>
  \<^verbatim>\<open>run\<close> (line 375), with the services and the submodules as parameters, and with
  those of the script. The readiness phase gets 180 seconds.
\<close>

definition run_with ::
  "env \<Rightarrow> runner \<Rightarrow> service list \<Rightarrow> submodule list \<Rightarrow> state \<Rightarrow> (exn + bool) \<times> state" where
  "run_with E r svs ms s =
     (case check_dependencies E r (print (Report Rule) (print (Report Banner) s)) of
        (Inl e, s1) \<Rightarrow> (Inl e, s1)
      | (Inr False, s1) \<Rightarrow> (Inr False, s1)
      | (Inr True, s1) \<Rightarrow>
       (case check_env_files E r s1 of
          (False, s2) \<Rightarrow> (Inr False, s2)
        | (True, s2) \<Rightarrow>
         (case start_test_environment E r s2 of
            (Inl e, s3) \<Rightarrow> (Inl e, s3)
          | (Inr False, s3) \<Rightarrow> (Inr False, s3)
          | (Inr True, s3) \<Rightarrow>
           (case wait_for_services_over E r svs 180 s3 of
              (False, s4) \<Rightarrow>
                (case cleanup_environment E r s4 of
                   (Inl e, s5) \<Rightarrow> (Inl e, s5)
                 | (Inr c, s5) \<Rightarrow> (Inr False, s5))
            | (True, s4) \<Rightarrow>
               (case run_submodule_tests_over E r ms s4 of
                  (results, s5) \<Rightarrow>
                   (case cleanup_environment E r s5 of
                      (Inl e, s6) \<Rightarrow> (Inl e, s6)
                    | (Inr cleanup_success, s6) \<Rightarrow>
                       (case print_summary results s6 of
                          (tests_ok, s7) \<Rightarrow>
                            if tests_ok \<and> cleanup_success
                            then (Inr True, print (Report FinishedOk) s7)
                            else (Inr False, print (Report FinishedWithErrors) s7))))))))"

definition run :: "env \<Rightarrow> runner \<Rightarrow> state \<Rightarrow> (exn + bool) \<times> state" where
  "run E r s = run_with E r services submodules s"

text \<open>
  \<^verbatim>\<open>main\<close> (line 414): the parsed arguments make the runner, and the exit code is 0
  when \<^verbatim>\<open>run\<close> returns true and 1 otherwise; an exception that escapes \<^verbatim>\<open>run\<close>
  ends the interpreter with exit code 1.
\<close>

record args =
  arg_no_cleanup :: bool
  arg_verbose :: bool

definition exit_code :: "(exn + bool) \<Rightarrow> int" where
  "exit_code res = (case res of Inr ok \<Rightarrow> (if ok then 0 else 1) | Inl e \<Rightarrow> 1)"

definition main_with ::
  "env \<Rightarrow> args \<Rightarrow> service list \<Rightarrow> submodule list \<Rightarrow> state \<Rightarrow> int \<times> state" where
  "main_with E a svs ms s =
     (let runner = \<lparr>verbose = arg_verbose a, no_cleanup = arg_no_cleanup a\<rparr>
      in case run_with E runner svs ms s of (res, s') \<Rightarrow> (exit_code res, s'))"

definition main :: "env \<Rightarrow> args \<Rightarrow> state \<Rightarrow> int \<times> state" where
  "main E a s = main_with E a services submodules s"

section \<open>Observations on a run\<close>

text \<open>
  The subprocess calls of a history, in order, and the relation between the state before
  and the state after a piece of the script that made calls from the set \<open>C\<close> only.
\<close>

fun calls :: "event list \<Rightarrow> call list" where
  "calls [] = []"
| "calls (Ran c rep # evs) = c # calls evs"
| "calls (e # evs) = calls evs"

definition adds :: "call set \<Rightarrow> state \<Rightarrow> state \<Rightarrow> bool" where
  "adds C s s' \<longleftrightarrow> (\<exists>evs. history s' = history s @ evs \<and> set (calls evs) \<subseteq> C)"

text \<open>
  A subprocess that ran to its end with return code 0, and one whose output, as far as the
  call captures it, can be decoded.
\<close>

definition exited_ok :: "proc_reply \<Rightarrow> bool" where
  "exited_ok rep = (case result rep of Exited rc so se \<Rightarrow> rc = 0 | _ \<Rightarrow> False)"

definition readable :: "env \<Rightarrow> bool \<Rightarrow> bool \<Rightarrow> proc_reply \<Rightarrow> bool" where
  "readable E capture text rep =
     (case result rep of
        Exited rc so se \<Rightarrow>
          captured E capture text so \<noteq> None \<and> captured E capture text se \<noteq> None
      | _ \<Rightarrow> True)"

text \<open>
  The number of stacks a history leaves running, counted as badly as the tool could behave:
  every bring-up that succeeded adds a stack, and only a tear-down that succeeded removes
  what is there.
\<close>

fun stack_step :: "event \<Rightarrow> nat \<Rightarrow> nat" where
  "stack_step (Ran c rep) n =
     (case result rep of
        Exited rc so se \<Rightarrow>
          if rc \<noteq> 0 then n
          else if c = ComposeUp then Suc n
          else if c = ComposeDownOrphans \<or> c = ComposeDown then 0
          else n
      | _ \<Rightarrow> n)"
| "stack_step e n = n"

definition live_stacks :: "event list \<Rightarrow> nat" where
  "live_stacks evs = fold stack_step evs 0"

text \<open>The calls of a run up to the end of the readiness phase.\<close>

definition setup_calls :: "call set" where
  "setup_calls =
     {DockerVersion, ComposeVersion, PythonVersion, ComposeDownOrphans, ComposeUp, PgIsReady,
      ComposeLogs}"

section \<open>Example worlds\<close>

text \<open>
  A world in which the files exist and the API answers 200; the subprocesses answer as
  \<open>p\<close> says from the history, and a sleep lasts \<open>extra\<close> milliseconds too long. Output
  holding the byte \<open>0xFF\<close>, which no UTF-8 text holds, cannot be decoded.
\<close>

definition replying :: "proc_result \<Rightarrow> nat \<Rightarrow> proc_reply" where
  "replying res ms = \<lparr>result = res, took = ms\<rparr>"

definition world :: "(event list \<Rightarrow> call \<Rightarrow> proc_reply) \<Rightarrow> nat \<Rightarrow> env" where
  "world p extra =
     \<lparr>proc = (\<lambda>h n. p h),
      http_get = (\<lambda>h n u. \<lparr>response = Status 200, http_took = 0\<rparr>),
      path_exists = (\<lambda>h n f. True),
      sleep_overrun = (\<lambda>h n. extra),
      decode = (\<lambda>b. if CHR 0xFF \<in> set b then None else Some b),
      exn_text = (\<lambda>e. ''error''),
      os_environ = []\<rparr>"

text \<open>The state before anything has happened, and a runner without flags.\<close>

definition fresh :: state where
  "fresh = \<lparr>history = [], now = 0, out = []\<rparr>"

definition quiet :: runner where
  "quiet = \<lparr>verbose = False, no_cleanup = False\<rparr>"

text \<open>Two submodules; in \<open>alpha_beta_env\<close> the tests of \<open>beta\<close> exit with 1.\<close>

definition alpha :: submodule where
  "alpha = \<lparr>sm_name = ''alpha'', path = ''alpha'', test_command = [''pytest''], sm_env = []\<rparr>"

definition beta :: submodule where
  "beta = \<lparr>sm_name = ''beta'', path = ''beta'', test_command = [''pytest''], sm_env = []\<rparr>"

definition alpha_beta_env :: env where
  "alpha_beta_env =
     world (\<lambda>h c. if c = RunTests [''pytest''] ''beta'' [] then replying (Exited 1 [] []) 0
                   else replying (Exited 0 [] []) 0) 0"

text \<open>The tests of \<open>alpha\<close> write to both streams and need 700 seconds.\<close>

definition slow_alpha_env :: env where
  "slow_alpha_env =
     world (\<lambda>h c. if c = RunTests [''pytest''] ''alpha'' []
                   then replying (Exited 0 ''collected'' ''warning'') 700000
                   else replying (Exited 0 [] []) 0) 0"

text \<open>The tests of \<open>beta\<close> write to both streams and exit with 1 after two seconds.\<close>

definition noisy_beta_env :: env where
  "noisy_beta_env =
     world (\<lambda>h c. if c = RunTests [''pytest''] ''beta'' []
                   then replying (Exited 1 ''1 failed'' ''deprecated'') 2000
                   else replying (Exited 0 [] []) 0) 0"

text \<open>The tests of \<open>alpha\<close> exit with 0 having written a byte that is no text.\<close>

definition garbled_alpha_env :: env where
  "garbled_alpha_env =
     world (\<lambda>h c. if c = RunTests [''pytest''] ''alpha'' []
                   then replying (Exited 0 [CHR ''o'', CHR ''k'', CHR 0xFF] []) 0
                   else replying (Exited 0 [] []) 0) 0"

text \<open>The tear-down command of the cleanup cannot be launched.\<close>

definition no_compose_env :: env where
  "no_compose_env =
     world (\<lambda>h c. if c = ComposeDown then replying NotFound 0 else replying (Exited 0 [] []) 0) 0"

text \<open>Every command exits with 0 at once.\<close>

definition calm_env :: env where
  "calm_env = world (\<lambda>h c. replying (Exited 0 [] []) 0) 0"

text \<open>The first database check cannot launch \<^verbatim>\<open>docker\<close>; the later ones succeed.\<close>

definition flaky_db_env :: env where
  "flaky_db_env =
     world (\<lambda>h c. if c = PgIsReady \<and> PgIsReady \<notin> set (calls h) then replying NotFound 0
                   else replying (Exited 0 [] []) 0) 0"

definition db_service :: service where
  "db_service =
     \<lparr>key = ''test_db'', url = ''http://localhost:5433'', svc_name = ''database'',
      check_function = CheckDatabase\<rparr>"

text \<open>A runner with \<^verbatim>\<open>--no-cleanup\<close>.\<close>

definition keeper :: runner where
  "keeper = \<lparr>verbose = False, no_cleanup = True\<rparr>"

text \<open>The database is never ready, and every sleep lasts 180 seconds too long.\<close>

definition unready_env :: env where
  "unready_env =
     world (\<lambda>h c. if c = PgIsReady then replying (Exited 1 [] []) 0
                   else replying (Exited 0 [] []) 0) 180000"



text \<open>The bring-up command exits with 1.\<close>

definition failing_up_env :: env where
  "failing_up_env =
     world (\<lambda>h c. if c = ComposeUp then replying (Exited 1 [] ''no such image'') 0
                   else replying (Exited 0 [] []) 0) 0"

section \<open>Calls, clock and output of each method\<close>

lemma calls_append [simp]: "calls (xs @ ys) = calls xs @ calls ys"
  by (induction xs rule: calls.induct) auto

lemma history_log [simp]: "history (log r m lvl s) = history s"
  by (simp add: log_def)

lemma now_log [simp]: "now (log r m lvl s) = now s"
  by (simp add: log_def)

lemma history_print [simp]: "history (print m s) = history s"
  by (simp add: print_def)

lemma now_print [simp]: "now (print m s) = now s"
  by (simp add: print_def)

lemma history_sleep [simp]:
  "history (sleep E n s) = history s @ [Slept n (sleep_overrun E (history s) (now s))]"
  by (simp add: sleep_def Let_def)

lemma reply_log [simp]: "reply E (log r m lvl s) c = reply E s c"
  by (simp add: reply_def)

lemma reply_print [simp]: "reply E (print m s) c = reply E s c"
  by (simp add: reply_def)

lemma history_after [simp]: "history (after E c t s) = history s @ [Ran c (reply E s c)]"
  by (simp add: after_def)

lemma now_after [simp]: "now (after E c t s) = now s + spent t (reply E s c)"
  by (simp add: after_def)

lemma out_after [simp]: "out (after E c t s) = out s"
  by (simp add: after_def)

lemma after_log [simp]: "after E c t (log r m lvl s) = log r m lvl (after E c t s)"
  by (simp add: after_def log_def reply_def)

lemma snd_subprocess_run [simp]: "snd (subprocess_run E c chk cap txt t s) = after E c t s"
  by (simp add: subprocess_run_def)

lemma fst_subprocess_run [simp]:
  "fst (subprocess_run E c chk cap txt t s) = outcome E chk cap txt t (reply E s c)"
  by (simp add: subprocess_run_def Let_def)

lemma history_subprocess_run [simp]:
  "history (snd (subprocess_run E c chk cap txt t s)) = history s @ [Ran c (reply E s c)]"
  by (simp add: subprocess_run_def Let_def)

lemma now_subprocess_run [simp]:
  "now (snd (subprocess_run E c chk cap txt t s)) = now s + spent t (reply E s c)"
  by (simp add: subprocess_run_def Let_def)

lemma adds_refl [simp]: "adds C s s"
  by (simp add: adds_def)

lemma adds_trans: "adds C s s1 \<Longrightarrow> adds C s1 s2 \<Longrightarrow> adds C s s2"
  by (auto simp: adds_def)

lemma adds_mono: "adds C s s' \<Longrightarrow> C \<subseteq> D \<Longrightarrow> adds D s s'"
  by (auto simp: adds_def)

lemma adds_log [simp]: "adds C s (log r m lvl s') = adds C s s'"
  by (simp add: adds_def)

lemma adds_print [simp]: "adds C s (print m s') = adds C s s'"
  by (simp add: adds_def)

lemma adds_log_left [simp]: "adds C (log r m lvl s) s' = adds C s s'"
  by (simp add: adds_def)

lemma adds_print_left [simp]: "adds C (print m s) s' = adds C s s'"
  by (simp add: adds_def)

lemma adds_sleep: "adds C s s' \<Longrightarrow> adds C s (sleep E n s')"
  by (auto simp: adds_def)

lemma adds_after:
  "adds C s s' \<Longrightarrow> c \<in> C \<Longrightarrow> adds C s (after E c t s')"
  by (auto simp: adds_def)

lemma adds_check_dependencies:
  "adds {DockerVersion, ComposeVersion, PythonVersion} s (snd (check_dependencies E r s))"
  by (simp add: check_dependencies_def Let_def case_prod_beta adds_after
           split: sum.split exn.split bool.split)

lemma adds_missing_files_loop: "adds {} s (snd (missing_files_loop E fs ms s))"
proof (induction fs arbitrary: ms s)
  case Nil
  show ?case by simp
next
  case (Cons f fs)
  have "adds {} s (s\<lparr>history := history s @ [Exists f (path_exists E (history s) (now s) f)]\<rparr>)"
    by (simp add: adds_def)
  from adds_trans [OF this Cons.IH] show ?case
    by (simp add: Let_def)
qed

lemma adds_check_env_files: "adds {} s (snd (check_env_files E r s))"
  using adds_missing_files_loop [of "log r (Check CheckingEnvFiles) INFO s" E required_files "[]"]
  by (simp add: check_env_files_def Let_def case_prod_beta)

lemma adds_start_failed: "adds C s s' \<Longrightarrow> adds C s (snd (start_failed r e s'))"
  by (simp add: start_failed_def Let_def split: exn.split)

lemma adds_start_test_environment:
  "adds {ComposeDownOrphans, ComposeUp} s (snd (start_test_environment E r s))"
  by (simp add: start_test_environment_def Let_def case_prod_beta adds_after adds_start_failed
           split: sum.split)

declare wait_loop.simps [simp del]

lemma adds_check_database: "adds {PgIsReady} s (snd (check_database E u s))"
  by (simp add: check_database_def case_prod_beta adds_after split: sum.split exn.split)

lemma adds_check_api: "adds {} s (snd (check_api E u s))"
  by (simp add: check_api_def Let_def adds_def split: http_result.split)

lemma adds_call_check: "adds {PgIsReady} s (snd (call_check E c u s))"
  by (cases c) (simp_all add: adds_check_database adds_mono [OF adds_check_api])

lemma adds_wait_attempt: "adds {PgIsReady} s (snd (wait_attempt E r sv n s))"
  using adds_call_check [of s E "check_function sv" "url sv"]
  by (simp add: wait_attempt_def case_prod_beta adds_sleep split: sum.split bool.split)

lemma adds_wait_loop: "adds {PgIsReady} s (snd (wait_loop E r sv st t n s))"
proof (induction E r sv st t n s rule: wait_loop.induct)
  case (1 E r sv st t n s)
  show ?case
  proof (cases "int (now s) - int st < t * 1000")
    case False
    then show ?thesis by (simp add: wait_loop.simps [of E r sv st t n s])
  next
    case True
    obtain b s' where att: "wait_attempt E r sv (n + 1) s = (b, s')"
      by (cases "wait_attempt E r sv (n + 1) s")
    have step: "adds {PgIsReady} s s'"
      using adds_wait_attempt [of s E r sv "n + 1"] att by simp
    show ?thesis
    proof (cases b)
      case True
      with \<open>int (now s) - int st < t * 1000\<close> att step show ?thesis
        by (simp add: wait_loop.simps [of E r sv st t n s])
    next
      case False
      with 1 [OF True] att have "adds {PgIsReady} s' (snd (wait_loop E r sv st t (n + 1) s'))"
        by simp
      with step have "adds {PgIsReady} s (snd (wait_loop E r sv st t (n + 1) s'))"
        by (rule adds_trans)
      with True False att show ?thesis
        by (simp add: wait_loop.simps [of E r sv st t n s])
    qed
  qed
qed

lemma history_show_container_logs [simp]:
  "history (show_container_logs E r s) = history s @ [Ran ComposeLogs (reply E s ComposeLogs)]"
  by (simp add: show_container_logs_def case_prod_beta Let_def split: sum.split)

lemma now_show_container_logs [simp]:
  "now (show_container_logs E r s) = now s + took (reply E s ComposeLogs)"
  by (simp add: show_container_logs_def case_prod_beta Let_def spent_def split: sum.split)

lemma adds_show_container_logs:
  "adds C s s' \<Longrightarrow> ComposeLogs \<in> C \<Longrightarrow> adds C s (show_container_logs E r s')"
  by (auto simp: adds_def)

lemma adds_probe_services:
  "adds {PgIsReady, ComposeLogs} s (snd (probe_services E r st t svs s))"
proof (induction svs arbitrary: s)
  case Nil
  show ?case by simp
next
  case (Cons sv svs)
  let ?s0 = "log r (Probe (WaitingFor (svc_name sv))) INFO s"
  obtain b s1 where w: "wait_loop E r sv st t 0 ?s0 = (b, s1)"
    by (cases "wait_loop E r sv st t 0 ?s0")
  have a: "adds {PgIsReady, ComposeLogs} s s1"
    using adds_mono [OF adds_wait_loop [of ?s0 E r sv st t 0]] w by simp
  show ?case
  proof (cases b)
    case False
    with w a show ?thesis by (simp add: adds_show_container_logs)
  next
    case True
    with w adds_trans [OF a Cons.IH [of s1]] show ?thesis by simp
  qed
qed

lemma adds_wait_for_services_over:
  "adds {PgIsReady, ComposeLogs} s (snd (wait_for_services_over E r svs t s))"
  using adds_probe_services [of "log r (Probe (WaitingForServices t)) INFO s" E r _ t svs]
  by (simp add: wait_for_services_over_def Let_def case_prod_beta split: bool.split)

lemma history_log_lines [simp]: "history (log_lines r ls s) = history s"
  by (induction ls arbitrary: s) simp_all

lemma now_log_lines [simp]: "now (log_lines r ls s) = now s"
  by (induction ls arbitrary: s) simp_all

lemma history_run_single_test [simp]:
  "history (snd (run_single_test E r m s)) =
     history s @ [Ran (test_call E m) (reply E s (test_call E m))]"
  by (simp add: run_single_test_def Let_def case_prod_beta split: sum.split exn.split)

lemma calls_tests_loop:
  "calls (history (snd (tests_loop E r ms rs s))) = calls (history s) @ map (test_call E) ms"
  by (induction ms arbitrary: rs s) (simp_all add: case_prod_beta Let_def)

lemma calls_run_submodule_tests_over:
  "calls (history (snd (run_submodule_tests_over E r ms s))) = calls (history s) @ map (test_call E) ms"
  by (simp add: run_submodule_tests_over_def calls_tests_loop)

lemma history_cleanup_environment [simp]:
  "history (snd (cleanup_environment E r s)) =
     (if no_cleanup r then history s
      else history s @ [Ran ComposeDown (reply E s ComposeDown)])"
  by (simp add: cleanup_environment_def case_prod_beta split: sum.split exn.split)

lemma history_summary_loop [simp]: "history (snd (snd (summary_loop rs p f s))) = history s"
  by (induction rs arbitrary: p f s) (simp_all add: Let_def)

lemma history_print_summary [simp]: "history (snd (print_summary rs s)) = history s"
  by (simp add: print_summary_def Let_def case_prod_beta)

lemma summary_loop_counts:
  "fst (summary_loop rs p f s) = p + length (filter success rs) \<and>
   fst (snd (summary_loop rs p f s)) = f + length (filter (\<lambda>x. \<not> success x) rs)"
  by (induction rs arbitrary: p f s) (simp_all add: Let_def)

lemma out_print [simp]: "out (print m s) = out s @ [Printed m]"
  by (simp add: print_def)

lemma length_filter_split:
  "length (filter success rs) + length (filter (\<lambda>x. \<not> success x) rs) = length rs"
  using sum_length_filter_compl [of success rs] by simp

lemma print_summary_result:
  "fst (print_summary rs s) = (length (filter (\<lambda>x. \<not> success x) rs) = 0)"
  using summary_loop_counts [of rs 0 0 "print (Report Rule) (print (Report SummaryHeader) (print (Report Rule) s))"]
  by (simp add: print_summary_def Let_def case_prod_beta)

lemma print_summary_out:
  "\<exists>pre. out (snd (print_summary rs s)) =
     pre @ [Printed (Report (TotalModules (length rs))),
            Printed (Report (PassedCount (length (filter success rs)))),
            Printed (Report (FailedCount (length (filter (\<lambda>x. \<not> success x) rs)))),
            Printed (Report (if length (filter (\<lambda>x. \<not> success x) rs) = 0 then AllPassed
                             else SomeFailed (length (filter (\<lambda>x. \<not> success x) rs))))]"
  using summary_loop_counts [of rs 0 0 "print (Report Rule) (print (Report SummaryHeader) (print (Report Rule) s))"]
        length_filter_split [of rs]
  by (auto simp add: print_summary_def Let_def case_prod_beta)

lemmas world_simps = world_def replying_def outcome_def captured_def reply_def after_def
  spent_def fresh_def quiet_def
  subprocess_run_def log_def print_def Let_def case_prod_beta

lemma tests_loop_snoc:
  "tests_loop E r (ms @ [m]) rs s =
     (let (rs', s1) = tests_loop E r ms rs s;
          (x, s2) = run_single_test E r m (log r (Test (RunningTestsFor (sm_name m))) INFO s1)
      in (rs' @ [x], s2))"
  by (induction ms arbitrary: rs s) (simp_all add: case_prod_beta Let_def)

lemma name_run_single_test [simp]: "name (fst (run_single_test E r m s)) = sm_name m"
  by (simp add: run_single_test_def Let_def case_prod_beta split: sum.split exn.split)

lemma names_tests_loop:
  "map name (fst (tests_loop E r ms rs s)) = map name rs @ map sm_name ms"
  by (induction ms arbitrary: rs s) (simp_all add: case_prod_beta Let_def)

lemma timeout_message_not_empty: "timeout_message \<noteq> []"
  by (simp add: timeout_message_def)

lemma run_single_test_timeout:
  "result (reply E s (test_call E m)) = Exited rc so se \<Longrightarrow>
   600000 < took (reply E s (test_call E m)) \<Longrightarrow>
   fst (run_single_test E r m s) =
     \<lparr>name = sm_name m, success = False, output = [], error = timeout_message\<rparr>"
  by (simp add: run_single_test_def Let_def case_prod_beta outcome_def)

lemma run_single_test_completed:
  "result (reply E s (test_call E m)) = Exited rc so se \<Longrightarrow>
   took (reply E s (test_call E m)) \<le> 600000 \<Longrightarrow>
   decode E so = Some t1 \<Longrightarrow> decode E se = Some t2 \<Longrightarrow>
   fst (run_single_test E r m s) =
     \<lparr>name = sm_name m, success = (rc = 0), output = t1, error = t2\<rparr>"
  by (simp add: run_single_test_def Let_def case_prod_beta outcome_def captured_def)

lemma run_single_test_undecodable:
  "result (reply E s (test_call E m)) = Exited rc so se \<Longrightarrow>
   took (reply E s (test_call E m)) \<le> 600000 \<Longrightarrow>
   decode E so = None \<or> decode E se = None \<Longrightarrow>
   fst (run_single_test E r m s) =
     \<lparr>name = sm_name m, success = False, output = [], error = exn_text E UnicodeDecodeError\<rparr>"
  by (auto simp add: run_single_test_def Let_def case_prod_beta outcome_def captured_def
        split: option.splits)

lemma run_single_test_not_found:
  "result (reply E s (test_call E m)) = NotFound \<Longrightarrow>
   fst (run_single_test E r m s) =
     \<lparr>name = sm_name m, success = False, output = [], error = exn_text E FileNotFoundError\<rparr>"
  by (simp add: run_single_test_def Let_def case_prod_beta outcome_def)

lemma run_single_test_launch_failed:
  "result (reply E s (test_call E m)) = LaunchFailed x \<Longrightarrow>
   fst (run_single_test E r m s) =
     \<lparr>name = sm_name m, success = False, output = [], error = exn_text E (OtherException x)\<rparr>"
  by (simp add: run_single_test_def Let_def case_prod_beta outcome_def)

lemma outcome_checked_Inr:
  "(\<exists>p. outcome E True cap txt None rep = Inr p) = (exited_ok rep \<and> readable E cap txt rep)"
  by (auto simp add: outcome_def exited_ok_def readable_def Let_def
        split: proc_result.split option.splits)

lemma outcome_checked_nonzero:
  "result rep = Exited rc so se \<Longrightarrow> rc \<noteq> 0 \<Longrightarrow>
   (readable E cap txt rep \<longrightarrow>
      (\<exists>t1 t2. outcome E True cap txt None rep = Inl (CalledProcessError rc t1 t2))) \<and>
   (\<not> readable E cap txt rep \<longrightarrow> outcome E True cap txt None rep = Inl UnicodeDecodeError)"
  by (auto simp add: outcome_def readable_def Let_def split: option.splits)

lemma start_failed_not_True [simp]: "fst (start_failed r e s) \<noteq> Inr True"
  by (simp add: start_failed_def Let_def split: exn.split)

lemma start_failed_result [simp]:
  "fst (start_failed r (CalledProcessError rc t1 t2) s) = Inr False"
  "fst (start_failed r UnicodeDecodeError s) = Inl UnicodeDecodeError"
  by (simp_all add: start_failed_def Let_def)

lemma history_start_failed [simp]: "history (snd (start_failed r e s)) = history s"
  by (simp add: start_failed_def Let_def split: exn.split)

lemma start_test_environment_result:
  "(fst (start_test_environment E r s) = Inr True) =
     (exited_ok (reply E s ComposeDownOrphans) \<and>
      readable E (\<not> verbose r) True (reply E s ComposeDownOrphans) \<and>
      exited_ok (reply E (after E ComposeDownOrphans None s) ComposeUp) \<and>
      readable E (\<not> verbose r) True (reply E (after E ComposeDownOrphans None s) ComposeUp))"
  using outcome_checked_Inr [of E "\<not> verbose r" True "reply E s ComposeDownOrphans"]
    outcome_checked_Inr [of E "\<not> verbose r" True
      "reply E (after E ComposeDownOrphans None s) ComposeUp"]
  by (auto simp add: start_test_environment_def Let_def case_prod_beta split: sum.split)

lemma start_test_environment_history:
  "history (snd (start_test_environment E r s)) =
     (if exited_ok (reply E s ComposeDownOrphans) \<and>
         readable E (\<not> verbose r) True (reply E s ComposeDownOrphans)
      then history s @ [Ran ComposeDownOrphans (reply E s ComposeDownOrphans),
             Ran ComposeUp (reply E (after E ComposeDownOrphans None s) ComposeUp)]
      else history s @ [Ran ComposeDownOrphans (reply E s ComposeDownOrphans)])"
  using outcome_checked_Inr [of E "\<not> verbose r" True "reply E s ComposeDownOrphans"]
  by (auto simp add: start_test_environment_def Let_def case_prod_beta split: sum.split)

lemma start_test_environment_down_nonzero:
  assumes "result (reply E s ComposeDownOrphans) = Exited rc so se" and "rc \<noteq> 0"
  shows "fst (start_test_environment E r s) =
           (if readable E (\<not> verbose r) True (reply E s ComposeDownOrphans) then Inr False
            else Inl UnicodeDecodeError)"
  using outcome_checked_nonzero [OF assms, of E "\<not> verbose r" True]
  by (auto simp add: start_test_environment_def Let_def case_prod_beta split: sum.split)

lemma start_test_environment_up_nonzero:
  assumes "exited_ok (reply E s ComposeDownOrphans)"
    and "readable E (\<not> verbose r) True (reply E s ComposeDownOrphans)"
    and "result (reply E (after E ComposeDownOrphans None s) ComposeUp) = Exited rc so se"
    and "rc \<noteq> 0"
  shows "fst (start_test_environment E r s) =
           (if readable E (\<not> verbose r) True (reply E (after E ComposeDownOrphans None s) ComposeUp)
            then Inr False else Inl UnicodeDecodeError)"
  using outcome_checked_nonzero [OF assms(3,4), of E "\<not> verbose r" True]
    outcome_checked_Inr [of E "\<not> verbose r" True "reply E s ComposeDownOrphans"] assms(1,2)
  by (auto simp add: start_test_environment_def Let_def case_prod_beta split: sum.split)

lemma live_stacks_after_start:
  assumes "fst (start_test_environment E r s) = Inr True"
  shows "live_stacks (history (snd (start_test_environment E r s))) = 1"
proof -
  from assms have ok: "exited_ok (reply E s ComposeDownOrphans)"
    "readable E (\<not> verbose r) True (reply E s ComposeDownOrphans)"
    "exited_ok (reply E (after E ComposeDownOrphans None s) ComposeUp)"
    by (simp_all add: start_test_environment_result)
  then show ?thesis
    by (simp add: start_test_environment_history live_stacks_def exited_ok_def
          split: proc_result.splits)
qed

lemma wait_loop_expired:
  "\<not> int (now s) - int st < t * 1000 \<Longrightarrow> wait_loop E r sv st t n s = (False, s)"
  by (simp add: wait_loop.simps [of E r sv st t n s])

lemma wait_loop_retry:
  "int (now s) - int st < t * 1000 \<Longrightarrow> \<not> fst (wait_attempt E r sv (n + 1) s) \<Longrightarrow>
   wait_loop E r sv st t n s = wait_loop E r sv st t (n + 1) (snd (wait_attempt E r sv (n + 1) s))"
  by (simp add: wait_loop.simps [of E r sv st t n s] case_prod_beta split: bool.split)

lemma wait_loop_ready:
  "int (now s) - int st < t * 1000 \<Longrightarrow> fst (wait_attempt E r sv (n + 1) s) \<Longrightarrow>
   wait_loop E r sv st t n s = (True, snd (wait_attempt E r sv (n + 1) s))"
  by (simp add: wait_loop.simps [of E r sv st t n s] case_prod_beta split: bool.split)

lemma wait_loop_False:
  "wait_loop E r sv st t n s = (False, s') \<Longrightarrow> t * 1000 \<le> int (now s') - int st"
proof (induction E r sv st t n s rule: wait_loop.induct)
  case (1 E r sv st t n s)
  show ?case
  proof (cases "int (now s) - int st < t * 1000")
    case False
    with 1 show ?thesis by (simp add: wait_loop_expired)
  next
    case True
    show ?thesis
    proof (cases "fst (wait_attempt E r sv (n + 1) s)")
      case True
      with \<open>int (now s) - int st < t * 1000\<close> "1.prems" show ?thesis
        by (simp add: wait_loop_ready)
    next
      case False
      then have att: "wait_attempt E r sv (n + 1) s = (False, snd (wait_attempt E r sv (n + 1) s))"
        by (simp add: prod_eq_iff)
      from "1.prems" True False
      have "wait_loop E r sv st t (n + 1) (snd (wait_attempt E r sv (n + 1) s)) = (False, s')"
        by (simp add: wait_loop_retry)
      from "1.IH" [OF True att [symmetric] refl this] show ?thesis .
    qed
  qed
qed

lemma wait_attempt_raised:
  "call_check E (check_function sv) (url sv) s = (Inl e, s1) \<Longrightarrow>
   wait_attempt E r sv n s =
     (False, sleep E 5 (if verbose r then log r (Probe (AttemptFailed n (svc_name sv) e)) INFO s1
                        else s1))"
  by (simp add: wait_attempt_def)

lemma out_log:
  "out (log r m lvl s) =
     (if verbose r \<or> lvl \<in> set [ERROR, WARNING, SUCCESS] then out s @ [Logged lvl m] else out s)"
  by (simp add: log_def)

lemma out_sleep [simp]: "out (sleep E n s) = out s"
  by (simp add: sleep_def Let_def)

lemma probe_services_append:
  "probe_services E r st t (pre @ rest) s =
     (case probe_services E r st t pre s of
        (False, s1) \<Rightarrow> (False, s1)
      | (True, s1) \<Rightarrow> probe_services E r st t rest s1)"
  by (induction pre arbitrary: s) (simp_all split: prod.split bool.split)

lemma probe_services_False:
  "probe_services E r st t svs s = (False, s') \<Longrightarrow>
   \<exists>pre sv post s1 s2. svs = pre @ sv # post \<and> probe_services E r st t pre s = (True, s1) \<and>
      wait_loop E r sv st t 0 (log r (Probe (WaitingFor (svc_name sv))) INFO s1) = (False, s2) \<and>
      s' = show_container_logs E r (log r (Probe (ServiceNotReady (svc_name sv) t)) ERROR s2)"
proof (induction svs arbitrary: s)
  case Nil
  then show ?case by simp
next
  case (Cons sv svs)
  let ?s0 = "log r (Probe (WaitingFor (svc_name sv))) INFO s"
  obtain b s1 where w: "wait_loop E r sv st t 0 ?s0 = (b, s1)"
    by (cases "wait_loop E r sv st t 0 ?s0")
  show ?case
  proof (cases b)
    case False
    with w Cons.prems
    have "sv # svs = [] @ sv # svs \<and> probe_services E r st t [] s = (True, s) \<and>
      wait_loop E r sv st t 0 (log r (Probe (WaitingFor (svc_name sv))) INFO s) = (False, s1) \<and>
      s' = show_container_logs E r (log r (Probe (ServiceNotReady (svc_name sv) t)) ERROR s1)"
      by auto
    then show ?thesis by blast
  next
    case True
    with w Cons.prems have "probe_services E r st t svs s1 = (False, s')"
      by simp
    from Cons.IH [OF this] obtain pre x post s2 s3 where
      d: "svs = pre @ x # post" "probe_services E r st t pre s1 = (True, s2)"
         "wait_loop E r x st t 0 (log r (Probe (WaitingFor (svc_name x))) INFO s2) = (False, s3)"
         "s' = show_container_logs E r (log r (Probe (ServiceNotReady (svc_name x) t)) ERROR s3)"
      by blast
    from d w True have "sv # svs = (sv # pre) @ x # post \<and>
       probe_services E r st t (sv # pre) s = (True, s2)"
      by simp
    with d show ?thesis by blast
  qed
qed

lemma wait_for_services_over_False:
  assumes "wait_for_services_over E r svs t s = (False, s')"
  shows "\<exists>pre sv post s2. svs = pre @ sv # post \<and>
           fst (wait_for_services_over E r pre t s) \<and>
           (\<forall>post'. wait_for_services_over E r (pre @ sv # post') t s = (False, s')) \<and>
           t * 1000 \<le> int (now s2) - int (now s) \<and>
           s' = show_container_logs E r (log r (Probe (ServiceNotReady (svc_name sv) t)) ERROR s2)"
proof -
  let ?s0 = "log r (Probe (WaitingForServices t)) INFO s"
  from assms have "probe_services E r (now ?s0) t svs ?s0 = (False, s')"
    by (auto simp: wait_for_services_over_def Let_def split: prod.splits bool.splits)
  from probe_services_False [OF this] obtain pre sv post s1 s2 where
    d: "svs = pre @ sv # post" "probe_services E r (now ?s0) t pre ?s0 = (True, s1)"
       "wait_loop E r sv (now ?s0) t 0 (log r (Probe (WaitingFor (svc_name sv))) INFO s1) = (False, s2)"
       "s' = show_container_logs E r (log r (Probe (ServiceNotReady (svc_name sv) t)) ERROR s2)"
    by blast
  have pre: "fst (wait_for_services_over E r pre t s)"
    using d(2) by (simp add: wait_for_services_over_def Let_def)
  have post: "wait_for_services_over E r (pre @ sv # post') t s = (False, s')" for post'
    using d(2,3,4) by (simp add: wait_for_services_over_def Let_def probe_services_append)
  from wait_loop_False [OF d(3)] have "t * 1000 \<le> int (now s2) - int (now s)"
    by simp
  with d(1,4) pre post show ?thesis by blast
qed

lemma wait_for_services_over_expired:
  assumes "wait_for_services_over E r svs t s = (False, s')"
  shows "t * 1000 \<le> int (now s') - int (now s)"
proof -
  from wait_for_services_over_False [OF assms] obtain pre sv post s2 where
    "svs = pre @ sv # post"
    "t * 1000 \<le> int (now s2) - int (now s)"
    "s' = show_container_logs E r (log r (Probe (ServiceNotReady (svc_name sv) t)) ERROR s2)"
    by blast
  then show ?thesis by simp
qed

lemma adds_same_history: "adds C s s' \<Longrightarrow> history s'' = history s' \<Longrightarrow> adds C s s''"
  by (simp add: adds_def)

lemma adds_then: "adds C s s' \<Longrightarrow> adds D s' s'' \<Longrightarrow> D \<subseteq> C \<Longrightarrow> adds C s s''"
  using adds_trans adds_mono by blast

lemma adds_tests_loop: "adds (test_call E ` set ms) s (snd (tests_loop E r ms rs s))"
proof (induction ms arbitrary: rs s)
  case Nil
  show ?case by simp
next
  case (Cons m ms)
  let ?s1 = "snd (run_single_test E r m (log r (Test (RunningTestsFor (sm_name m))) INFO s))"
  have a: "adds (test_call E ` set (m # ms)) s ?s1"
    by (simp add: adds_def)
  have "adds (test_call E ` set ms) ?s1
          (snd (tests_loop E r ms (rs @ [fst (run_single_test E r m
                  (log r (Test (RunningTestsFor (sm_name m))) INFO s))]) ?s1))"
    by (rule Cons.IH)
  from adds_then [OF a this] show ?case
    by (auto simp add: case_prod_beta Let_def)
qed

lemma adds_run_submodule_tests_over:
  "adds (test_call E ` set ms) s (snd (run_submodule_tests_over E r ms s))"
  using adds_tests_loop [of E ms "log r (Test RunningTests) INFO s" r "[]"]
  by (simp add: run_submodule_tests_over_def)

lemma adds_cleanup_environment:
  "adds (if no_cleanup r then {} else {ComposeDown}) s (snd (cleanup_environment E r s))"
  by (simp add: adds_def)

lemma adds_run_with:
  "adds (setup_calls \<union> test_call E ` set ms \<union> (if no_cleanup r then {} else {ComposeDown}))
     s (snd (run_with E r svs ms s))"
proof -
  define C where
    "C = setup_calls \<union> test_call E ` set ms \<union> (if no_cleanup r then {} else {ComposeDown})"
  let ?s0 = "print (Report Rule) (print (Report Banner) s)"
  let ?s1 = "snd (check_dependencies E r ?s0)"
  let ?s2 = "snd (check_env_files E r ?s1)"
  let ?s3 = "snd (start_test_environment E r ?s2)"
  let ?s4 = "snd (wait_for_services_over E r svs 180 ?s3)"
  let ?s5 = "snd (run_submodule_tests_over E r ms ?s4)"
  have base: "setup_calls \<subseteq> C" and tests: "test_call E ` set ms \<subseteq> C"
    and stop: "(if no_cleanup r then {} else {ComposeDown}) \<subseteq> C" and none: "{} \<subseteq> C"
    by (auto simp: C_def)
  have deps: "{DockerVersion, ComposeVersion, PythonVersion} \<subseteq> C"
    and start: "{ComposeDownOrphans, ComposeUp} \<subseteq> C"
    and probe: "{PgIsReady, ComposeLogs} \<subseteq> C"
    using base by (auto simp: setup_calls_def)
  have a0: "adds C s ?s0"
    by simp
  note a1 = adds_then [OF a0 adds_check_dependencies [of ?s0 E r] deps]
  note a2 = adds_then [OF a1 adds_check_env_files [of ?s1 E r] none]
  note a3 = adds_then [OF a2 adds_start_test_environment [of ?s2 E r] start]
  note a4 = adds_then [OF a3 adds_wait_for_services_over [of ?s3 E r svs 180] probe]
  note a4c = adds_then [OF a4 adds_cleanup_environment [of r ?s4 E] stop]
  note a5 = adds_then [OF a4 adds_run_submodule_tests_over [of E ms ?s4 r] tests]
  note a6 = adds_then [OF a5 adds_cleanup_environment [of r ?s5 E] stop]
  have a7: "adds C s (snd (print_summary rs (snd (cleanup_environment E r ?s5))))" for rs
    using a6 by (rule adds_same_history) simp
  have "adds C s (snd (run_with E r svs ms s))"
    using a1 a2 a3 a4 a4c a6 a7
    by (simp add: run_with_def case_prod_beta split: sum.split bool.split)
  then show ?thesis
    by (simp only: C_def)
qed

lemma adds_count:
  "adds C s s' \<Longrightarrow> c \<notin> C \<Longrightarrow> count_list (calls (history s')) c = count_list (calls (history s)) c"
  by (auto simp: adds_def count_list_0_iff)

lemmas run_simps = run_with_def check_dependencies_def check_env_files_def required_files_def
  start_test_environment_def start_failed_def wait_for_services_over_def services_def
  wait_loop.simps wait_attempt_def sleep_def check_database_def check_api_def
  show_container_logs_def run_submodule_tests_over_def submodules_def run_single_test_def
  test_call_def test_env_def cleanup_environment_def print_summary_def


lemma run_with_unready:
  assumes "check_dependencies E r (print (Report Rule) (print (Report Banner) s)) = (Inr True, s1)"
    and "check_env_files E r s1 = (True, s2)"
    and "start_test_environment E r s2 = (Inr True, s3)"
    and "wait_for_services_over E r svs 180 s3 = (False, s4)"
  shows "fst (run_with E r svs ms s) \<noteq> Inr True"
    and "snd (run_with E r svs ms s) = snd (cleanup_environment E r s4)"
  using assms by (simp_all add: run_with_def case_prod_beta split: sum.split)

lemma run_with_start_failed:
  assumes "check_dependencies E r (print (Report Rule) (print (Report Banner) s)) = (Inr True, s1)"
    and "check_env_files E r s1 = (True, s2)"
    and "fst (start_test_environment E r s2) \<noteq> Inr True"
  shows "run_with E r svs ms s = start_test_environment E r s2"
  using assms by (simp add: run_with_def case_prod_beta prod_eq_iff split: sum.split bool.split)

lemma exit_code_failure: "res \<noteq> Inr True \<Longrightarrow> exit_code res = 1"
  by (simp add: exit_code_def split: sum.split)





section \<open>Starting the environment\<close>

text \<open>
  C5. \<^verbatim>\<open>start_test_environment\<close> always runs the forced tear-down first, and the
  bring-up only after the tear-down exited with 0: a tear-down that fails ends the start
  without a bring-up. The start returns true exactly when both commands exited with 0
  and, unless the run is verbose and their output is not captured, wrote output that can
  be decoded. A non-zero exit of either command is returned as false, or, when the
  captured output cannot be decoded, ends the start with the decoding error; an exception
  on launching a command escapes too: in none of these cases does the start succeed.
  After a start that returned true one stack is running, whatever ran before, so also
  after two starts in succession.
\<close>

theorem start_tears_down_first:
  "(\<exists>evs. history (snd (start_test_environment E r s)) =
       history s @ Ran ComposeDownOrphans (reply E s ComposeDownOrphans) # evs \<and>
       (evs = [] \<or> exited_ok (reply E s ComposeDownOrphans) \<and>
          evs = [Ran ComposeUp (reply E (after E ComposeDownOrphans None s) ComposeUp)])) \<and>
   (\<not> exited_ok (reply E s ComposeDownOrphans) \<longrightarrow>
      fst (start_test_environment E r s) \<noteq> Inr True \<and>
      ComposeUp \<notin> set (calls (drop (length (history s)) (history (snd (start_test_environment E r s)))))) \<and>
   (fst (start_test_environment E r s) = Inr True \<longrightarrow>
      exited_ok (reply E s ComposeDownOrphans) \<and>
      exited_ok (reply E (after E ComposeDownOrphans None s) ComposeUp)) \<and>
   (fst (start_test_environment E r s) = Inr True \<longleftrightarrow>
      exited_ok (reply E s ComposeDownOrphans) \<and>
      readable E (\<not> verbose r) True (reply E s ComposeDownOrphans) \<and>
      exited_ok (reply E (after E ComposeDownOrphans None s) ComposeUp) \<and>
      readable E (\<not> verbose r) True (reply E (after E ComposeDownOrphans None s) ComposeUp)) \<and>
   (\<forall>rc so se. result (reply E s ComposeDownOrphans) = Exited rc so se \<and> rc \<noteq> 0 \<longrightarrow>
      fst (start_test_environment E r s) =
        (if readable E (\<not> verbose r) True (reply E s ComposeDownOrphans) then Inr False
         else Inl UnicodeDecodeError)) \<and>
   (\<forall>rc so se. exited_ok (reply E s ComposeDownOrphans) \<and>
      readable E (\<not> verbose r) True (reply E s ComposeDownOrphans) \<and>
      result (reply E (after E ComposeDownOrphans None s) ComposeUp) = Exited rc so se \<and>
      rc \<noteq> 0 \<longrightarrow>
      fst (start_test_environment E r s) =
        (if readable E (\<not> verbose r) True (reply E (after E ComposeDownOrphans None s) ComposeUp)
         then Inr False else Inl UnicodeDecodeError)) \<and>
   (fst (start_test_environment E r s) = Inr True \<longrightarrow>
      live_stacks (history (snd (start_test_environment E r s))) = 1) \<and>
   (fst (start_test_environment E r s) = Inr True \<and>
    fst (start_test_environment E r (snd (start_test_environment E r s))) = Inr True \<longrightarrow>
      live_stacks (history (snd (start_test_environment E r (snd (start_test_environment E r s))))) = 1)"
proof -
  have h: "\<exists>evs. history (snd (start_test_environment E r s)) =
       history s @ Ran ComposeDownOrphans (reply E s ComposeDownOrphans) # evs \<and>
       (evs = [] \<or> exited_ok (reply E s ComposeDownOrphans) \<and>
          evs = [Ran ComposeUp (reply E (after E ComposeDownOrphans None s) ComposeUp)])"
    by (simp add: start_test_environment_history)
  have abort: "\<not> exited_ok (reply E s ComposeDownOrphans) \<longrightarrow>
      fst (start_test_environment E r s) \<noteq> Inr True \<and>
      ComposeUp \<notin> set (calls (drop (length (history s)) (history (snd (start_test_environment E r s)))))"
    by (simp add: start_test_environment_history start_test_environment_result)
  show ?thesis
    using h abort start_test_environment_result [of E r s]
      start_test_environment_down_nonzero [of E s _ _ _ r]
      start_test_environment_up_nonzero [of E s r]
      live_stacks_after_start [of E r s]
      live_stacks_after_start [of E r "snd (start_test_environment E r s)"]
    by blast
qed

theorem start_tears_down_first_witness:
  "fst (start_test_environment calm_env quiet fresh) = Inr True \<and>
   fst (start_test_environment calm_env quiet (snd (start_test_environment calm_env quiet fresh))) =
     Inr True \<and>
   calls (history (snd (start_test_environment calm_env quiet
                        (snd (start_test_environment calm_env quiet fresh))))) =
     [ComposeDownOrphans, ComposeUp, ComposeDownOrphans, ComposeUp] \<and>
   live_stacks (history (snd (start_test_environment calm_env quiet
                                (snd (start_test_environment calm_env quiet fresh))))) = 1"
proof -
  have a: "fst (start_test_environment calm_env quiet fresh) = Inr True"
    by (simp add: start_test_environment_def calm_env_def world_simps)
  have b: "fst (start_test_environment calm_env quiet
                  (snd (start_test_environment calm_env quiet fresh))) = Inr True"
    by (simp add: start_test_environment_def calm_env_def world_simps)
  have c: "calls (history (snd (start_test_environment calm_env quiet
                        (snd (start_test_environment calm_env quiet fresh))))) =
     [ComposeDownOrphans, ComposeUp, ComposeDownOrphans, ComposeUp]"
    by (simp add: start_test_environment_def calm_env_def world_simps)
  from start_tears_down_first [of calm_env quiet fresh] a b c show ?thesis
    by blast
qed

section \<open>Waiting for the services\<close>

text \<open>
  C8. When the check of a service raises an exception, the pass through the loop ends as
  it does for a service that is not ready: the exception is logged in verbose mode only,
  the script sleeps five seconds, and, while the deadline has not passed, the loop goes
  on with the next attempt. Neither the loop for one service nor the whole readiness
  phase gives up before the deadline has passed.
\<close>

theorem check_exception_means_not_ready:
  assumes raised: "call_check E (check_function sv) (url sv) s = (Inl e, s1)"
  shows "wait_attempt E r sv n s =
           (False, sleep E 5 (if verbose r
                              then log r (Probe (AttemptFailed n (svc_name sv) e)) INFO s1
                              else s1)) \<and>
         history (snd (wait_attempt E r sv n s)) =
           history s1 @ [Slept 5 (sleep_overrun E (history s1) (now s1))] \<and>
         out (snd (wait_attempt E r sv n s)) =
           out s1 @ (if verbose r then [Logged INFO (Probe (AttemptFailed n (svc_name sv) e))]
                     else []) \<and>
         (int (now s) - int st < t * 1000 \<longrightarrow>
            wait_loop E r sv st t k s =
              wait_loop E r sv st t (k + 1) (snd (wait_attempt E r sv (k + 1) s))) \<and>
         (\<forall>s'. wait_loop E r sv st t k s = (False, s') \<longrightarrow> t * 1000 \<le> int (now s') - int st) \<and>
         (\<forall>svs s0 s'. wait_for_services_over E r svs t s0 = (False, s') \<longrightarrow>
            t * 1000 \<le> int (now s') - int (now s0))"
proof -
  have att: "wait_attempt E r sv n s =
           (False, sleep E 5 (if verbose r
                              then log r (Probe (AttemptFailed n (svc_name sv) e)) INFO s1
                              else s1))" for n
    using raised by (rule wait_attempt_raised)
  have h: "history (snd (wait_attempt E r sv n s)) =
           history s1 @ [Slept 5 (sleep_overrun E (history s1) (now s1))]"
    by (simp add: att)
  have o: "out (snd (wait_attempt E r sv n s)) =
           out s1 @ (if verbose r then [Logged INFO (Probe (AttemptFailed n (svc_name sv) e))]
                     else [])"
    by (simp add: att out_log)
  have retry: "int (now s) - int st < t * 1000 \<longrightarrow>
            wait_loop E r sv st t k s =
              wait_loop E r sv st t (k + 1) (snd (wait_attempt E r sv (k + 1) s))"
    using wait_loop_retry [of s st t E r sv k] by (simp add: att)
  show ?thesis
    using att [of n] h o retry wait_loop_False [of E r sv st t k s]
      wait_for_services_over_expired [of E r _ t]
    by blast
qed

theorem check_exception_means_not_ready_witness:
  "fst (call_check flaky_db_env (check_function db_service) (url db_service) fresh) =
     Inl FileNotFoundError \<and>
   fst (wait_attempt flaky_db_env quiet db_service 1 fresh) = False \<and>
   calls (history (snd (wait_attempt flaky_db_env quiet db_service 1 fresh))) = [PgIsReady] \<and>
   fst (wait_loop flaky_db_env quiet db_service 0 180 0 fresh) = True \<and>
   calls (history (snd (wait_loop flaky_db_env quiet db_service 0 180 0 fresh))) =
     [PgIsReady, PgIsReady]"
proof -
  define s1 where "s1 = snd (call_check flaky_db_env (check_function db_service) (url db_service) fresh)"
  have raised: "call_check flaky_db_env (check_function db_service) (url db_service) fresh =
                  (Inl FileNotFoundError, s1)"
    unfolding s1_def
    by (simp add: prod_eq_iff db_service_def check_database_def flaky_db_env_def world_simps)
  have l: "fst (wait_loop flaky_db_env quiet db_service 0 180 0 fresh) = True \<and>
   calls (history (snd (wait_loop flaky_db_env quiet db_service 0 180 0 fresh))) =
     [PgIsReady, PgIsReady]"
    by (simp add: wait_loop.simps wait_attempt_def sleep_def db_service_def check_database_def
          flaky_db_env_def world_simps)
  from check_exception_means_not_ready [OF raised, of quiet 1 0 180 0] raised l
  show ?thesis
    by (simp add: s1_def db_service_def check_database_def flaky_db_env_def world_simps)
qed

text \<open>
  C10. With a deadline of zero seconds or less, \<^verbatim>\<open>wait_for_services\<close> over a
  non-empty list of services returns false and its only call is the dump of the container
  logs: no service is checked, whatever the services would answer. Over the empty list it
  returns true without a call and without the clock moving.
\<close>

theorem nonpositive_deadline_never_probes:
  assumes "timeout \<le> 0"
  shows "wait_for_services_over E r (sv # svs) timeout s =
           (False, show_container_logs E r
                     (log r (Probe (ServiceNotReady (svc_name sv) timeout)) ERROR
                        (log r (Probe (WaitingFor (svc_name sv))) INFO
                           (log r (Probe (WaitingForServices timeout)) INFO s)))) \<and>
         history (snd (wait_for_services_over E r (sv # svs) timeout s)) =
           history s @ [Ran ComposeLogs (reply E s ComposeLogs)] \<and>
         wait_for_services_over E r [] timeout s =
           (True, log r (Probe AllServicesReady) INFO
                    (log r (Probe (WaitingForServices timeout)) INFO s)) \<and>
         history (snd (wait_for_services_over E r [] timeout s)) = history s \<and>
         now (snd (wait_for_services_over E r [] timeout s)) = now s"
  using assms by (simp add: wait_for_services_over_def Let_def wait_loop_expired)

theorem nonpositive_deadline_never_probes_witness:
  "(0::int) \<le> 0 \<and>
   fst (wait_for_services_over calm_env quiet services 1 fresh) = True \<and>
   fst (wait_for_services_over calm_env quiet services 0 fresh) = False \<and>
   calls (history (snd (wait_for_services_over calm_env quiet services 0 fresh))) = [ComposeLogs] \<and>
   fst (wait_for_services_over calm_env quiet [] 0 fresh) = True"
proof -
  have ready: "fst (wait_for_services_over calm_env quiet services 1 fresh) = True"
    by (simp add: wait_for_services_over_def services_def wait_loop.simps wait_attempt_def
          check_database_def check_api_def calm_env_def world_simps)
  have s: "services = hd services # tl services"
    by (simp add: services_def)
  from nonpositive_deadline_never_probes [of 0 calm_env quiet "hd services" "tl services" fresh]
    ready s
  show ?thesis
    by (simp add: fresh_def)
qed



section \<open>Running the tests\<close>

text \<open>
  C4. \<^verbatim>\<open>run_submodule_tests\<close> returns one result for every submodule, in order and under
  the submodule's name, and runs every submodule's test command exactly once: the loop
  over a list extended by a module \<open>m\<close> does what it does on the list and then runs
  \<open>m\<close>, whatever the earlier results were. A test command cut off by the ten-minute
  timeout gives a result with \<^verbatim>\<open>success\<close> false and the timeout text as its error; a
  command that cannot be launched, or whose output cannot be decoded, gives
  \<^verbatim>\<open>success\<close> false and the text of the exception.
\<close>

theorem one_result_per_module:
  "map name (fst (run_submodule_tests_over E r ms s)) = map sm_name ms \<and>
   length (fst (run_submodule_tests_over E r ms s)) = length ms \<and>
   calls (history (snd (run_submodule_tests_over E r ms s))) =
     calls (history s) @ map (test_call E) ms \<and>
   run_submodule_tests_over E r (ms @ [m]) s =
     (let (rs, s1) = run_submodule_tests_over E r ms s;
          (x, s2) = run_single_test E r m (log r (Test (RunningTestsFor (sm_name m))) INFO s1)
      in (rs @ [x], s2)) \<and>
   ((\<exists>rc so se. result (reply E st (test_call E m)) = Exited rc so se) \<and>
    600000 < took (reply E st (test_call E m)) \<longrightarrow>
      fst (run_single_test E r m st) =
        \<lparr>name = sm_name m, success = False, output = [], error = timeout_message\<rparr>) \<and>
   timeout_message \<noteq> [] \<and>
   (result (reply E st (test_call E m)) = NotFound \<longrightarrow>
      fst (run_single_test E r m st) =
        \<lparr>name = sm_name m, success = False, output = [],
         error = exn_text E FileNotFoundError\<rparr>) \<and>
   (\<forall>x. result (reply E st (test_call E m)) = LaunchFailed x \<longrightarrow>
      fst (run_single_test E r m st) =
        \<lparr>name = sm_name m, success = False, output = [],
         error = exn_text E (OtherException x)\<rparr>) \<and>
   (\<forall>rc so se. result (reply E st (test_call E m)) = Exited rc so se \<and>
      took (reply E st (test_call E m)) \<le> 600000 \<and>
      (decode E so = None \<or> decode E se = None) \<longrightarrow>
      fst (run_single_test E r m st) =
        \<lparr>name = sm_name m, success = False, output = [],
         error = exn_text E UnicodeDecodeError\<rparr>)"
proof -
  have names: "map name (fst (run_submodule_tests_over E r ms s)) = map sm_name ms"
    by (simp add: run_submodule_tests_over_def names_tests_loop)
  from names have len: "length (fst (run_submodule_tests_over E r ms s)) = length ms"
    using length_map by metis
  have snoc: "run_submodule_tests_over E r (ms @ [m]) s =
     (let (rs, s1) = run_submodule_tests_over E r ms s;
          (x, s2) = run_single_test E r m (log r (Test (RunningTestsFor (sm_name m))) INFO s1)
      in (rs @ [x], s2))"
    by (simp add: run_submodule_tests_over_def tests_loop_snoc)
  show ?thesis
    using names len snoc calls_run_submodule_tests_over [of E r ms s] timeout_message_not_empty
      run_single_test_timeout [of E st m _ _ _ r] run_single_test_not_found [of E st m r]
      run_single_test_launch_failed [of E st m _ r]
      run_single_test_undecodable [of E st m _ _ _ r]
    by blast
qed

theorem one_result_per_module_witness:
  "(\<exists>rc so se. result (reply slow_alpha_env fresh (test_call slow_alpha_env alpha)) =
       Exited rc so se) \<and>
   600000 < took (reply slow_alpha_env fresh (test_call slow_alpha_env alpha)) \<and>
   fst (run_single_test slow_alpha_env quiet alpha fresh) =
     \<lparr>name = ''alpha'', success = False, output = [], error = timeout_message\<rparr> \<and>
   map name (fst (run_submodule_tests_over slow_alpha_env quiet [alpha, beta] fresh)) =
     [''alpha'', ''beta''] \<and>
   map success (fst (run_submodule_tests_over slow_alpha_env quiet [alpha, beta] fresh)) =
     [False, True]"
proof -
  have a: "\<exists>rc so se. result (reply slow_alpha_env fresh (test_call slow_alpha_env alpha)) =
       Exited rc so se"
    by (simp add: slow_alpha_env_def test_call_def test_env_def alpha_def world_simps)
  have b: "600000 < took (reply slow_alpha_env fresh (test_call slow_alpha_env alpha))"
    by (simp add: slow_alpha_env_def test_call_def test_env_def alpha_def world_simps)
  have c: "map success (fst (run_submodule_tests_over slow_alpha_env quiet [alpha, beta] fresh)) =
     [False, True]"
    by (simp add: run_submodule_tests_over_def run_single_test_def test_call_def test_env_def
          subprocess_run_def alpha_def beta_def slow_alpha_env_def world_simps)
  from one_result_per_module [of slow_alpha_env quiet "[alpha, beta]" fresh alpha fresh] a b c
  show ?thesis
    by (simp add: alpha_def beta_def)
qed

text \<open>
  C6, as stated, fails: a test command that had written ``collected'' to stdout and
  ``warning'' to stderr when the timeout cut it off was captured (the exception carries
  both texts), but the result holds neither.
\<close>

theorem timed_out_tests_lose_output:
  "fst (subprocess_run slow_alpha_env (test_call slow_alpha_env alpha) False True True (Some 600)
          fresh) =
     Inl (TimeoutExpired ''collected'' ''warning'') \<and>
   output (fst (run_single_test slow_alpha_env quiet alpha fresh)) \<noteq> ''collected'' \<and>
   error (fst (run_single_test slow_alpha_env quiet alpha fresh)) \<noteq> ''warning''"
  by (simp add: run_single_test_def test_call_def test_env_def alpha_def slow_alpha_env_def
        subprocess_run_def timeout_message_def world_simps)

text \<open>
  C6, amended. The result of a test command that ran to its end within the ten minutes and
  wrote output that can be decoded carries the command's stdout and stderr, as decoded,
  whatever the return code. The result of a command cut off by the timeout has an empty
  output and the timeout text as its error; the result of a command whose output cannot
  be decoded has \<^verbatim>\<open>success\<close> false, an empty output and the text of the decoding error
  as its error, whatever the return code.
\<close>

theorem completed_tests_keep_output:
  assumes "result (reply E s (test_call E m)) = Exited rc so se"
  shows "(\<forall>t1 t2. took (reply E s (test_call E m)) \<le> 600000 \<and>
            decode E so = Some t1 \<and> decode E se = Some t2 \<longrightarrow>
            fst (run_single_test E r m s) =
              \<lparr>name = sm_name m, success = (rc = 0), output = t1, error = t2\<rparr>) \<and>
         (took (reply E s (test_call E m)) \<le> 600000 \<and>
            (decode E so = None \<or> decode E se = None) \<longrightarrow>
            fst (run_single_test E r m s) =
              \<lparr>name = sm_name m, success = False, output = [],
               error = exn_text E UnicodeDecodeError\<rparr>) \<and>
         (600000 < took (reply E s (test_call E m)) \<longrightarrow>
            output (fst (run_single_test E r m s)) = [] \<and>
            error (fst (run_single_test E r m s)) = timeout_message)"
  using assms run_single_test_completed [of E s m rc so se _ _ r]
    run_single_test_undecodable [of E s m rc so se r]
    run_single_test_timeout [of E s m rc so se r]
  by simp

theorem completed_tests_keep_output_witness:
  "result (reply noisy_beta_env fresh (test_call noisy_beta_env beta)) =
     Exited 1 ''1 failed'' ''deprecated'' \<and>
   took (reply noisy_beta_env fresh (test_call noisy_beta_env beta)) \<le> 600000 \<and>
   decode noisy_beta_env ''1 failed'' = Some ''1 failed'' \<and>
   decode noisy_beta_env ''deprecated'' = Some ''deprecated'' \<and>
   fst (run_single_test noisy_beta_env quiet beta fresh) =
     \<lparr>name = ''beta'', success = False, output = ''1 failed'', error = ''deprecated''\<rparr> \<and>
   result (reply garbled_alpha_env fresh (test_call garbled_alpha_env alpha)) =
     Exited 0 [CHR ''o'', CHR ''k'', CHR 0xFF] [] \<and>
   decode garbled_alpha_env [CHR ''o'', CHR ''k'', CHR 0xFF] = None \<and>
   fst (run_single_test garbled_alpha_env quiet alpha fresh) =
     \<lparr>name = ''alpha'', success = False, output = [], error = ''error''\<rparr>"
proof -
  have a: "result (reply noisy_beta_env fresh (test_call noisy_beta_env beta)) =
     Exited 1 ''1 failed'' ''deprecated''"
    by (simp add: noisy_beta_env_def test_call_def test_env_def beta_def world_simps)
  have b: "took (reply noisy_beta_env fresh (test_call noisy_beta_env beta)) \<le> 600000"
    by (simp add: noisy_beta_env_def test_call_def test_env_def beta_def world_simps)
  have c: "decode noisy_beta_env ''1 failed'' = Some ''1 failed''"
    "decode noisy_beta_env ''deprecated'' = Some ''deprecated''"
    by (simp_all add: noisy_beta_env_def world_def)
  have d: "result (reply garbled_alpha_env fresh (test_call garbled_alpha_env alpha)) =
     Exited 0 [CHR ''o'', CHR ''k'', CHR 0xFF] []"
    by (simp add: garbled_alpha_env_def test_call_def test_env_def alpha_def world_simps)
  have e: "took (reply garbled_alpha_env fresh (test_call garbled_alpha_env alpha)) \<le> 600000"
    by (simp add: garbled_alpha_env_def test_call_def test_env_def alpha_def world_simps)
  have f: "decode garbled_alpha_env [CHR ''o'', CHR ''k'', CHR 0xFF] = None"
    by (simp add: garbled_alpha_env_def world_def)
  have g: "exn_text garbled_alpha_env UnicodeDecodeError = ''error''"
    by (simp add: garbled_alpha_env_def world_def)
  from completed_tests_keep_output [OF a, of quiet] completed_tests_keep_output [OF d, of quiet]
    a b c d e f g
  show ?thesis
    by (simp add: alpha_def beta_def)
qed

section \<open>Stopping the environment\<close>

text \<open>
  C9, as stated, fails: when the tear-down command cannot be launched,
  \<^verbatim>\<open>cleanup_environment\<close> raises \<^verbatim>\<open>FileNotFoundError\<close> to its caller.
\<close>

theorem cleanup_lets_launch_errors_escape:
  "fst (cleanup_environment no_compose_env quiet fresh) = Inl FileNotFoundError"
  by (simp add: cleanup_environment_def no_compose_env_def subprocess_run_def world_simps)

text \<open>
  C9, amended. \<^verbatim>\<open>cleanup_environment\<close> returns true without a call when
  \<^verbatim>\<open>no_cleanup\<close> is set. Otherwise, when the tear-down command ran to its end and its
  output, as far as it is captured, can be decoded, it returns whether the command exited
  with 0: a failing command is a false result, and \<^verbatim>\<open>CalledProcessError\<close> never
  reaches the caller. Exceptions of another kind are not caught: the one raised when the
  command cannot be launched, and the decoding error raised, in a run that is not
  verbose, when the captured output is no text.
\<close>

theorem cleanup_returns_command_failure:
  "fst (cleanup_environment E r s) =
     (if no_cleanup r then Inr True
      else case result (reply E s ComposeDown) of
             Exited rc so se \<Rightarrow>
               if readable E (\<not> verbose r) True (reply E s ComposeDown) then Inr (rc = 0)
               else Inl UnicodeDecodeError
           | NotFound \<Rightarrow> Inl FileNotFoundError
           | LaunchFailed x \<Rightarrow> Inl (OtherException x)) \<and>
   (\<forall>rc so se. fst (cleanup_environment E r s) \<noteq> Inl (CalledProcessError rc so se))"
  by (auto simp add: cleanup_environment_def case_prod_beta outcome_def readable_def Let_def
           split: sum.split exn.split proc_result.split option.splits)

section \<open>The report and the exit status\<close>

text \<open>
  C1. For every sequence of results, the loop of \<^verbatim>\<open>print_summary\<close> counts the results
  with \<^verbatim>\<open>success\<close> true as passed and the others as failed, \<^verbatim>\<open>print_summary\<close>
  returns true exactly when none failed, and it prints the total and the two counts. A
  run that passes the dependency check, the file check, the start and the readiness phase
  returns the conjunction of "no result failed" and what \<^verbatim>\<open>cleanup_environment\<close>
  returned, and the exit code is 0 exactly when both hold, 1 otherwise.
\<close>

theorem reporter_totals_and_exit_status:
  assumes deps: "check_dependencies E r (print (Report Rule) (print (Report Banner) s)) = (Inr True, s1)"
    and files: "check_env_files E r s1 = (True, s2)"
    and started: "start_test_environment E r s2 = (Inr True, s3)"
    and ready: "wait_for_services_over E r svs 180 s3 = (True, s4)"
    and tests: "run_submodule_tests_over E r ms s4 = (results, s5)"
    and cleanup: "cleanup_environment E r s5 = (Inr cleanup_succeeded, s6)"
  shows "fst (summary_loop rs 0 0 st) = length (filter success rs) \<and>
         fst (snd (summary_loop rs 0 0 st)) = length (filter (\<lambda>x. \<not> success x) rs) \<and>
         fst (print_summary rs st) = (length (filter (\<lambda>x. \<not> success x) rs) = 0) \<and>
         (\<exists>pre. out (snd (print_summary rs st)) =
            pre @ [Printed (Report (TotalModules (length rs))),
                   Printed (Report (PassedCount (length (filter success rs)))),
                   Printed (Report (FailedCount (length (filter (\<lambda>x. \<not> success x) rs)))),
                   Printed (Report (if length (filter (\<lambda>x. \<not> success x) rs) = 0 then AllPassed
                                    else SomeFailed (length (filter (\<lambda>x. \<not> success x) rs))))]) \<and>
         fst (run_with E r svs ms s) =
           Inr (length (filter (\<lambda>x. \<not> success x) results) = 0 \<and> cleanup_succeeded) \<and>
         exit_code (fst (run_with E r svs ms s)) =
           (if length (filter (\<lambda>x. \<not> success x) results) = 0 \<and> cleanup_succeeded then 0 else 1) \<and>
         fst (main_with E \<lparr>arg_no_cleanup = no_cleanup r, arg_verbose = verbose r\<rparr> svs ms s) =
           (if length (filter (\<lambda>x. \<not> success x) results) = 0 \<and> cleanup_succeeded then 0 else 1)"
proof -
  have run: "fst (run_with E r svs ms s) =
           Inr (length (filter (\<lambda>x. \<not> success x) results) = 0 \<and> cleanup_succeeded)"
    using assms print_summary_result [of results s6]
    by (simp add: run_with_def case_prod_beta)
  have r: "\<lparr>verbose = verbose r, no_cleanup = no_cleanup r\<rparr> = r"
    by simp
  show ?thesis
    using run summary_loop_counts [of rs 0 0 st] print_summary_result [of rs st]
      print_summary_out [of rs st]
    by (simp add: exit_code_def main_with_def case_prod_beta r)
qed

theorem reporter_totals_and_exit_status_witness:
  "let E = alpha_beta_env;
       s1 = snd (check_dependencies E quiet (print (Report Rule) (print (Report Banner) fresh)));
       s2 = snd (check_env_files E quiet s1);
       s3 = snd (start_test_environment E quiet s2);
       s4 = snd (wait_for_services_over E quiet services 180 s3);
       results = fst (run_submodule_tests_over E quiet [alpha, beta] s4)
   in map name results = [''alpha'', ''beta''] \<and> map success results = [True, False] \<and>
      fst (summary_loop results 0 0 fresh) = 1 \<and>
      fst (snd (summary_loop results 0 0 fresh)) = 1 \<and>
      fst (print_summary results fresh) = False \<and>
      fst (run_with E quiet services [alpha, beta] fresh) = Inr False \<and>
      fst (main_with E \<lparr>arg_no_cleanup = False, arg_verbose = False\<rparr> services [alpha, beta] fresh) = 1"
proof -
  define E where "E = alpha_beta_env"
  define s0 where "s0 = print (Report Rule) (print (Report Banner) fresh)"
  define s1 where "s1 = snd (check_dependencies E quiet s0)"
  define s2 where "s2 = snd (check_env_files E quiet s1)"
  define s3 where "s3 = snd (start_test_environment E quiet s2)"
  define s4 where "s4 = snd (wait_for_services_over E quiet services 180 s3)"
  define results where "results = fst (run_submodule_tests_over E quiet [alpha, beta] s4)"
  define s5 where "s5 = snd (run_submodule_tests_over E quiet [alpha, beta] s4)"
  define s6 where "s6 = snd (cleanup_environment E quiet s5)"
  have deps: "check_dependencies E quiet s0 = (Inr True, s1)"
    unfolding s1_def E_def s0_def
    by (simp add: prod_eq_iff check_dependencies_def alpha_beta_env_def world_simps)
  have files: "check_env_files E quiet s1 = (True, s2)"
    unfolding s2_def E_def
    by (simp add: prod_eq_iff check_env_files_def required_files_def alpha_beta_env_def world_simps)
  have started: "start_test_environment E quiet s2 = (Inr True, s3)"
    unfolding s3_def E_def
    by (simp add: prod_eq_iff start_test_environment_def alpha_beta_env_def world_simps)
  have h3: "history s3 = history s3" by simp
  have ready: "wait_for_services_over E quiet services 180 s3 = (True, s4)"
    unfolding s4_def E_def
    by (simp add: prod_eq_iff wait_for_services_over_def services_def wait_loop.simps
          wait_attempt_def check_database_def check_api_def alpha_beta_env_def world_simps)
  have tests: "run_submodule_tests_over E quiet [alpha, beta] s4 = (results, s5)"
    by (simp add: results_def s5_def)
  have res: "map name results = [''alpha'', ''beta''] \<and> map success results = [True, False]"
    unfolding results_def E_def
    by (simp add: run_submodule_tests_over_def run_single_test_def test_call_def test_env_def
          alpha_def beta_def alpha_beta_env_def world_simps)
  have cleanup: "cleanup_environment E quiet s5 = (Inr True, s6)"
    unfolding s6_def E_def
    by (simp add: prod_eq_iff cleanup_environment_def alpha_beta_env_def world_simps)
  have failed: "length (filter (\<lambda>x. \<not> success x) results) = 1"
    and passed: "length (filter success results) = 1"
    using res by (cases results; cases "tl results"; auto)+
  from reporter_totals_and_exit_status [OF deps [unfolded s0_def] files started ready tests cleanup,
      where rs = results and st = fresh] res failed passed
  show ?thesis
    unfolding Let_def E_def [symmetric] s0_def [symmetric] s1_def [symmetric] s2_def [symmetric]
      s3_def [symmetric] s4_def [symmetric] results_def [symmetric]
    by (simp add: quiet_def)
qed

section \<open>The whole run\<close>

text \<open>
  C7. In a run with \<^verbatim>\<open>no_cleanup\<close> set, whatever the world answers and however the run
  ends, the tear-down command of \<^verbatim>\<open>cleanup_environment\<close>
  (\<^verbatim>\<open>docker-compose ... down -v\<close>, line 311) is never run, and
  \<^verbatim>\<open>cleanup_environment\<close> returns true without a call. (The forced tear-down at the
  beginning of \<^verbatim>\<open>start_test_environment\<close> is a call of its own and belongs to the
  start.)
\<close>

theorem no_cleanup_never_stops:
  assumes "no_cleanup r"
  shows "(\<exists>evs. history (snd (run_with E r svs ms s)) = history s @ evs \<and>
                ComposeDown \<notin> set (calls evs)) \<and>
         count_list (calls (history (snd (run_with E r svs ms s)))) ComposeDown =
           count_list (calls (history s)) ComposeDown \<and>
         cleanup_environment E r st = (Inr True, log r (Environment SkippingCleanup) INFO st) \<and>
         history (snd (cleanup_environment E r st)) = history st"
proof -
  let ?C = "setup_calls \<union> test_call E ` set ms"
  have a: "adds ?C s (snd (run_with E r svs ms s))"
    using adds_run_with [of E ms r s svs] assms by simp
  have notin: "ComposeDown \<notin> ?C"
    by (auto simp: setup_calls_def test_call_def)
  from a notin have "\<exists>evs. history (snd (run_with E r svs ms s)) = history s @ evs \<and>
                ComposeDown \<notin> set (calls evs)"
    unfolding adds_def by blast
  moreover from a notin have "count_list (calls (history (snd (run_with E r svs ms s)))) ComposeDown =
           count_list (calls (history s)) ComposeDown"
    by (rule adds_count)
  moreover have "cleanup_environment E r st = (Inr True, log r (Environment SkippingCleanup) INFO st)"
    using assms by (simp add: cleanup_environment_def)
  ultimately show ?thesis
    using assms by simp
qed

theorem no_cleanup_never_stops_witness:
  "no_cleanup keeper \<and>
   fst (run_with unready_env keeper services submodules fresh) = Inr False \<and>
   calls (history (snd (run_with unready_env keeper services submodules fresh))) =
     [DockerVersion, ComposeVersion, PythonVersion, ComposeDownOrphans, ComposeUp, PgIsReady,
      ComposeLogs] \<and>
   count_list (calls (history (snd (run_with unready_env keeper services submodules fresh))))
     ComposeDown = 0"
proof -
  have k: "no_cleanup keeper"
    by (simp add: keeper_def)
  have e: "fst (run_with unready_env keeper services submodules fresh) = Inr False \<and>
   calls (history (snd (run_with unready_env keeper services submodules fresh))) =
     [DockerVersion, ComposeVersion, PythonVersion, ComposeDownOrphans, ComposeUp, PgIsReady,
      ComposeLogs]"
    by (simp add: run_simps keeper_def unready_env_def world_simps)
  from no_cleanup_never_stops [OF k, of unready_env services submodules fresh fresh] k e
  show ?thesis
    by (simp add: fresh_def)
qed

text \<open>
  C2, as stated, fails for a failing start: when the bring-up command exits with 1 the run
  returns false right after it, with \<^verbatim>\<open>no_cleanup\<close> unset and without a call of the
  tear-down command.
\<close>

theorem start_failure_skips_cleanup:
  "\<not> no_cleanup quiet \<and>
   fst (run_with failing_up_env quiet services submodules fresh) = Inr False \<and>
   history (snd (run_with failing_up_env quiet services submodules fresh)) =
     [Ran DockerVersion (replying (Exited 0 [] []) 0),
      Ran ComposeVersion (replying (Exited 0 [] []) 0),
      Ran PythonVersion (replying (Exited 0 [] []) 0),
      Exists ''.env.dev'' True, Exists ''.env.hh.dev'' True,
      Ran ComposeDownOrphans (replying (Exited 0 [] []) 0),
      Ran ComposeUp (replying (Exited 1 [] ''no such image'') 0)] \<and>
   ComposeDown \<notin> set (calls (history (snd (run_with failing_up_env quiet services submodules fresh))))"
  by (simp add: run_simps failing_up_env_def world_simps)

text \<open>
  C2, amended. In a run that has passed the checks: when \<^verbatim>\<open>start_test_environment\<close>
  does not return true, the run ends there with what the start returned or raised, as a
  failure (exit code 1); when the start succeeds and the readiness phase returns false,
  the run calls \<^verbatim>\<open>cleanup_environment\<close> and then ends as a failure, the tear-down
  command being its last call unless \<^verbatim>\<open>no_cleanup\<close> is set.
\<close>

theorem abort_after_start_or_readiness_failure:
  assumes deps: "check_dependencies E r (print (Report Rule) (print (Report Banner) s)) = (Inr True, s1)"
    and files: "check_env_files E r s1 = (True, s2)"
  shows "(fst (start_test_environment E r s2) \<noteq> Inr True \<longrightarrow>
            run_with E r svs ms s = start_test_environment E r s2 \<and>
            exit_code (fst (run_with E r svs ms s)) = 1) \<and>
         (\<forall>s3 s4. start_test_environment E r s2 = (Inr True, s3) \<and>
                   wait_for_services_over E r svs 180 s3 = (False, s4) \<longrightarrow>
            fst (run_with E r svs ms s) \<noteq> Inr True \<and>
            exit_code (fst (run_with E r svs ms s)) = 1 \<and>
            snd (run_with E r svs ms s) = snd (cleanup_environment E r s4) \<and>
            history (snd (run_with E r svs ms s)) =
              (if no_cleanup r then history s4
               else history s4 @ [Ran ComposeDown (reply E s4 ComposeDown)]))"
proof -
  have a: "fst (start_test_environment E r s2) \<noteq> Inr True \<longrightarrow>
            run_with E r svs ms s = start_test_environment E r s2 \<and>
            exit_code (fst (run_with E r svs ms s)) = 1"
    using run_with_start_failed [OF deps files, of svs ms] exit_code_failure by simp
  have b: "fst (run_with E r svs ms s) \<noteq> Inr True \<and>
            exit_code (fst (run_with E r svs ms s)) = 1 \<and>
            snd (run_with E r svs ms s) = snd (cleanup_environment E r s4) \<and>
            history (snd (run_with E r svs ms s)) =
              (if no_cleanup r then history s4
               else history s4 @ [Ran ComposeDown (reply E s4 ComposeDown)])"
    if "start_test_environment E r s2 = (Inr True, s3)"
      and "wait_for_services_over E r svs 180 s3 = (False, s4)" for s3 s4
    using run_with_unready [OF deps files that, of ms] exit_code_failure by simp
  from a b show ?thesis
    by blast
qed

theorem abort_after_start_or_readiness_failure_witness:
  "(let E = failing_up_env;
        s1 = snd (check_dependencies E quiet (print (Report Rule) (print (Report Banner) fresh)));
        s2 = snd (check_env_files E quiet s1)
    in fst (check_dependencies E quiet (print (Report Rule) (print (Report Banner) fresh))) = Inr True \<and>
       fst (check_env_files E quiet s1) \<and>
       fst (start_test_environment E quiet s2) = Inr False \<and>
       run_with E quiet services submodules fresh = start_test_environment E quiet s2 \<and>
       exit_code (fst (run_with E quiet services submodules fresh)) = 1) \<and>
   (let E = unready_env;
        s1 = snd (check_dependencies E quiet (print (Report Rule) (print (Report Banner) fresh)));
        s2 = snd (check_env_files E quiet s1);
        s3 = snd (start_test_environment E quiet s2);
        s4 = snd (wait_for_services_over E quiet services 180 s3)
    in fst (check_dependencies E quiet (print (Report Rule) (print (Report Banner) fresh))) = Inr True \<and>
       fst (check_env_files E quiet s1) \<and>
       fst (start_test_environment E quiet s2) = Inr True \<and>
       \<not> fst (wait_for_services_over E quiet services 180 s3) \<and>
       fst (run_with E quiet services submodules fresh) = Inr False \<and>
       exit_code (fst (run_with E quiet services submodules fresh)) = 1 \<and>
       snd (run_with E quiet services submodules fresh) = snd (cleanup_environment E quiet s4) \<and>
       calls (history (snd (run_with E quiet services submodules fresh))) =
         [DockerVersion, ComposeVersion, PythonVersion, ComposeDownOrphans, ComposeUp, PgIsReady,
          ComposeLogs, ComposeDown])"
proof -
  define E where "E = failing_up_env"
  define s0 where "s0 = print (Report Rule) (print (Report Banner) fresh)"
  define s1 where "s1 = snd (check_dependencies E quiet s0)"
  define s2 where "s2 = snd (check_env_files E quiet s1)"
  have deps: "check_dependencies E quiet s0 = (Inr True, s1)"
    unfolding s1_def E_def s0_def
    by (simp add: prod_eq_iff check_dependencies_def failing_up_env_def world_simps)
  have files: "check_env_files E quiet s1 = (True, s2)"
    unfolding s2_def E_def
    by (simp add: prod_eq_iff check_env_files_def required_files_def failing_up_env_def world_simps)
  have failed: "fst (start_test_environment E quiet s2) = Inr False"
    unfolding s2_def s1_def s0_def E_def
    by (simp add: run_simps failing_up_env_def world_simps)
  from abort_after_start_or_readiness_failure [OF deps [unfolded s0_def] files, of services submodules]
    deps files failed
  have start_half: "fst (check_dependencies E quiet s0) = Inr True \<and>
       fst (check_env_files E quiet s1) \<and>
       fst (start_test_environment E quiet s2) = Inr False \<and>
       run_with E quiet services submodules fresh = start_test_environment E quiet s2 \<and>
       exit_code (fst (run_with E quiet services submodules fresh)) = 1"
    by (simp add: exit_code_def)
  define U where "U = unready_env"
  define u1 where "u1 = snd (check_dependencies U quiet s0)"
  define u2 where "u2 = snd (check_env_files U quiet u1)"
  define u3 where "u3 = snd (start_test_environment U quiet u2)"
  define u4 where "u4 = snd (wait_for_services_over U quiet services 180 u3)"
  have udeps: "check_dependencies U quiet s0 = (Inr True, u1)"
    unfolding u1_def U_def s0_def
    by (simp add: prod_eq_iff check_dependencies_def unready_env_def world_simps)
  have ufiles: "check_env_files U quiet u1 = (True, u2)"
    unfolding u2_def U_def
    by (simp add: prod_eq_iff check_env_files_def required_files_def unready_env_def world_simps)
  have ustarted: "start_test_environment U quiet u2 = (Inr True, u3)"
    unfolding u3_def U_def
    by (simp add: prod_eq_iff start_test_environment_def unready_env_def world_simps)
  have uunready: "wait_for_services_over U quiet services 180 u3 = (False, u4)"
    unfolding u4_def u3_def u2_def u1_def s0_def U_def
    by (simp add: prod_eq_iff run_simps unready_env_def world_simps)
  have ucalls: "fst (run_with U quiet services submodules fresh) = Inr False \<and>
       calls (history (snd (run_with U quiet services submodules fresh))) =
         [DockerVersion, ComposeVersion, PythonVersion, ComposeDownOrphans, ComposeUp, PgIsReady,
          ComposeLogs, ComposeDown]"
    unfolding U_def by (simp add: run_simps unready_env_def world_simps)
  from abort_after_start_or_readiness_failure [OF udeps [unfolded s0_def] ufiles, of services submodules]
    ustarted uunready
  have "exit_code (fst (run_with U quiet services submodules fresh)) = 1 \<and>
        snd (run_with U quiet services submodules fresh) = snd (cleanup_environment U quiet u4)"
    by blast
  with udeps ufiles ustarted uunready ucalls
  have readiness_half: "fst (check_dependencies U quiet s0) = Inr True \<and>
       fst (check_env_files U quiet u1) \<and>
       fst (start_test_environment U quiet u2) = Inr True \<and>
       \<not> fst (wait_for_services_over U quiet services 180 u3) \<and>
       fst (run_with U quiet services submodules fresh) = Inr False \<and>
       exit_code (fst (run_with U quiet services submodules fresh)) = 1 \<and>
       snd (run_with U quiet services submodules fresh) = snd (cleanup_environment U quiet u4) \<and>
       calls (history (snd (run_with U quiet services submodules fresh))) =
         [DockerVersion, ComposeVersion, PythonVersion, ComposeDownOrphans, ComposeUp, PgIsReady,
          ComposeLogs, ComposeDown]"
    by simp
  from start_half readiness_half show ?thesis
    unfolding Let_def E_def [symmetric] U_def [symmetric] s0_def [symmetric] s1_def [symmetric]
      s2_def [symmetric] u1_def [symmetric] u2_def [symmetric] u3_def [symmetric]
      u4_def [symmetric]
    by blast
qed

end
